theory Spec2Isabelle
  imports Complex_Main "HOL-Library.AList"
begin

section \<open>Python values and exceptions\<close>

text \<open>
  The three source files are Python over torch. Python \<open>int\<close> is \<open>int\<close> (or \<open>nat\<close> for a
  size, which torch never lets be negative), Python \<open>float\<close> is idealised as \<open>real\<close>
  (rounding, infinities and nan are not modelled), a \<open>str\<close> is a \<open>string\<close>.

  An exception is a value of \<open>'x error\<close>. The constructors named after a Python class are the
  exceptions that the source itself, or a torch operation written out below, raises.
  \<open>Raised x\<close> is an exception \<open>x\<close> that escapes from a call into code that is not part of
  the three files (the backbone, the loss, the optimizer, ...): such a call returns
  \<open>'x + 'a\<close>, and \<open>call\<close> turns it into a result of the model.
\<close>

datatype 'x error =
    ZeroDivisionError
  | RuntimeError string
  | ValueError
  | IndexError
  | KeyError
  | TypeError
  | AssertionError
  | FileNotFoundError
  | AttributeError
  | Raised 'x

definition bind_err :: "'e + 'a \<Rightarrow> ('a \<Rightarrow> 'e + 'b) \<Rightarrow> 'e + 'b" where
  "bind_err m f = (case m of Inl e \<Rightarrow> Inl e | Inr a \<Rightarrow> f a)"

definition call :: "'x + 'a \<Rightarrow> 'x error + 'a" where
  "call r = (case r of Inl x \<Rightarrow> Inl (Raised x) | Inr a \<Rightarrow> Inr a)"

section \<open>Tensors\<close>

text \<open>
  A float tensor is its shape and its elements in row-major order (every tensor the trainer
  views is contiguous). \<open>numel\<close> is the product of the shape, as in torch.
\<close>

record tensor =
  shape :: "nat list"
  data :: "real list"

definition numel :: "tensor \<Rightarrow> nat" where
  "numel t = prod_list (shape t)"

text \<open>
  \<open>t.view(n, c, h, w)\<close>: the new shape must hold exactly the elements of \<open>t\<close>; the data is shared.
  (The numbers torch prints in the message are left out.)
\<close>

definition view :: "tensor \<Rightarrow> nat list \<Rightarrow> 'x error + tensor" where
  "view t s =
     (if prod_list s = numel t then Inr (t\<lparr>shape := s\<rparr>)
      else Inl (RuntimeError ''shape is invalid for input size''))"

text \<open>
  \<open>t.view(n, -1)\<close>: torch infers the second dimension as \<open>numel / n\<close>. For \<open>n = 0\<close> nothing can be
  inferred and the call always raises: "ambiguous" on an empty tensor, "invalid" otherwise.
\<close>

definition view_rows :: "tensor \<Rightarrow> nat \<Rightarrow> 'x error + tensor" where
  "view_rows t n =
     (if n = 0 then
        (if numel t = 0
         then Inl (RuntimeError ''cannot reshape tensor of 0 elements: the unspecified dimension size -1 is ambiguous'')
         else Inl (RuntimeError ''shape is invalid for input size''))
      else if numel t mod n = 0 then Inr (t\<lparr>shape := [n, numel t div n]\<rparr>)
      else Inl (RuntimeError ''shape is invalid for input size''))"

text \<open>\<open>a, b, c, h, w = t.size()\<close>: unpacking anything but five sizes is a \<open>ValueError\<close>.\<close>

definition size5 :: "tensor \<Rightarrow> 'x error + (nat \<times> nat \<times> nat \<times> nat \<times> nat)" where
  "size5 t = (case shape t of [a, b, c, h, w] \<Rightarrow> Inr (a, b, c, h, w) | _ \<Rightarrow> Inl ValueError)"

text \<open>
  Reading a tensor by position, to say which image a row is: the image at \<open>(i, j)\<close> of a
  tensor of shape \<open>(d0, d1, c, h, w)\<close>, and row \<open>i\<close> of a batch of shape \<open>(n, c, h, w)\<close>.
\<close>

definition image_at :: "tensor \<Rightarrow> nat \<Rightarrow> nat \<Rightarrow> real list" where
  "image_at t i j =
     (let k = prod_list (drop 2 (shape t))
      in take k (drop ((i * (shape t ! 1) + j) * k) (data t)))"

definition row_at :: "tensor \<Rightarrow> nat \<Rightarrow> real list" where
  "row_at t i =
     (let k = prod_list (drop 1 (shape t))
      in take k (drop (i * k) (data t)))"

subsection \<open>Integer label tensors\<close>

text \<open>
  A one-dimensional integer tensor is an \<open>int list\<close>, a two-dimensional one the list of its
  rows. The four operations of
  \<open>torch.arange(C).view(1, -1).repeat(S, 1).cuda().view(-1)\<close>:
\<close>

definition arange :: "nat \<Rightarrow> int list" where
  "arange n = map int [0..<n]"

definition view_1_row :: "int list \<Rightarrow> int list list" where
  "view_1_row xs = [xs]"

definition repeat_rows :: "nat \<Rightarrow> int list list \<Rightarrow> int list list" where
  "repeat_rows s rows = concat (replicate s rows)"

definition view_flat :: "int list list \<Rightarrow> int list" where
  "view_flat rows = concat rows"

text \<open>
  \<open>preds == labels\<close> on one-dimensional tensors: elementwise, a tensor of one element is
  broadcast, any other difference in length raises.
\<close>

definition tensor_eq :: "int list \<Rightarrow> int list \<Rightarrow> 'x error + bool list" where
  "tensor_eq xs ys =
     (if length xs = length ys then Inr (map2 (=) xs ys)
      else if length xs = 1 then Inr (map (\<lambda>y. hd xs = y) ys)
      else if length ys = 1 then Inr (map (\<lambda>x. x = hd ys) xs)
      else Inl (RuntimeError ''The size of tensor a must match the size of tensor b''))"

text \<open>\<open>float(m.float().sum())\<close> of a boolean tensor: the number of its true entries.\<close>

definition float_sum :: "bool list \<Rightarrow> real" where
  "float_sum m = real (length (filter (\<lambda>b. b) m))"

section \<open>Episodes (few_shot/models/ProtoNet.py)\<close>

text \<open>
  An episode is the dictionary the loader yields: two image tensors of shape
  \<open>(samples per class, classes, c, h, w)\<close>, the absolute labels, and the declared sizes.
\<close>

record episode =
  support_set :: tensor
  query_set :: tensor
  targets :: "int list"
  nclasses :: nat
  support_size :: nat
  query_size :: nat

text \<open>Lines 56-57 and 104-105: the relative labels, built from the declared sizes only.\<close>

definition support_relative_labels :: "episode \<Rightarrow> int list" where
  "support_relative_labels episode =
     view_flat (repeat_rows (support_size episode) (view_1_row (arange (nclasses episode))))"

definition query_relative_labels :: "episode \<Rightarrow> int list" where
  "query_relative_labels episode =
     view_flat (repeat_rows (query_size episode) (view_1_row (arange (nclasses episode))))"

section \<open>The trainer (few_shot/models/ProtoNet.py, class ProtoNet)\<close>

text \<open>
  What the trainer calls but the three files do not define is a parameter: the record
  \<open>T\<close> below. Each call may raise (\<open>Inl\<close>). The types \<open>'p\<close>, \<open>'o\<close>, \<open>'s\<close> and \<open>'g\<close> are the
  backbone's parameters, the optimizer's state, the scheduler's state and a gradient.
  \<^item> \<open>backbone\<close>: the forward pass \<open>self.backbone(x)\<close>, in training or evaluation mode, under
    the current parameters (buffers such as batch-norm statistics are not modelled);
  \<^item> \<open>prototype_distance\<close>: imported from \<open>.modules.ProtoNet\<close>, which is not among the files;
  \<open>cross_entropy\<close>: \<open>float(F.cross_entropy(logits, labels.long()))\<close>;
  \<^item> \<open>backward\<close>: the gradient that \<open>loss.backward()\<close> leaves after \<open>optimizer.zero_grad()\<close>, a
    function of what the loss was computed from;
  \<open>optimizer_step\<close>: \<open>self.optimizer.step()\<close>;
  \<^item> \<open>max_index\<close>: \<open>logits.max(-1)[1]\<close>; \<open>float_mean\<close>: \<open>float(m.float().mean())\<close>;
  \<^item> \<open>scheduler_step\<close>: \<open>self.scheduler.step(metric)\<close>, which may also lower the learning
    rate held by the optimizer.
\<close>

record ('p, 'o, 's, 'g, 'x) torch =
  backbone :: "bool \<Rightarrow> 'p \<Rightarrow> tensor \<Rightarrow> 'x + tensor"
  prototype_distance :: "tensor \<Rightarrow> tensor \<Rightarrow> int list \<Rightarrow> 'x + tensor"
  cross_entropy :: "tensor \<Rightarrow> int list \<Rightarrow> 'x + real"
  backward :: "bool \<Rightarrow> 'p \<Rightarrow> tensor \<Rightarrow> tensor \<Rightarrow> int list \<Rightarrow> int list \<Rightarrow> 'x + 'g"
  optimizer_step :: "'o \<Rightarrow> 'p \<Rightarrow> 'g \<Rightarrow> 'x + ('o \<times> 'p)"
  max_index :: "tensor \<Rightarrow> 'x + int list"
  float_mean :: "bool list \<Rightarrow> real"
  scheduler_step :: "'s \<Rightarrow> 'o \<Rightarrow> real \<Rightarrow> 'x + ('s \<times> 'o)"

text \<open>The attributes of a \<open>ProtoNet\<close> object that the two epoch loops read or write.\<close>

record ('p, 'o, 's) protonet =
  backbone_params :: 'p
  backbone_training :: bool
  optimizer :: 'o
  scheduler :: 's
  best_val :: int

text \<open>
  What one pass of a loop body computes: the loss, the logits, the tensor
  \<open>preds == query_relative_labels\<close>, and \<open>qs * nclasses\<close> as read from \<open>query_set.size()\<close>.
\<close>

record outcome =
  loss :: real
  logits :: tensor
  preds_match :: "bool list"
  n_query :: nat

text \<open>
  The body of the loop of \<open>train_on_loader\<close> (lines 44-74). The second \<open>size()\<close> overwrites
  \<open>nclasses, c, h, w\<close>, so both views use the query tensor's (written \<open>nclasses'\<close> here; the
  episode's own field is \<open>nclasses\<close>). \<open>targets\<close> is read and cloned, and the copy is never used.
  The result comes with the object as the body leaves it: the parameters change at
  \<open>optimizer.step()\<close>, also when a later line raises.
\<close>

definition train_episode ::
  "('p, 'o, 's, 'g, 'x) torch \<Rightarrow> ('p, 'o, 's) protonet \<Rightarrow> episode
    \<Rightarrow> ('x error + outcome) \<times> ('p, 'o, 's) protonet" where
  "train_episode T self episode =
     (case
        bind_err (size5 (support_set episode)) (\<lambda>(ss, nclasses0, c0, h0, w0).
        bind_err (size5 (query_set episode)) (\<lambda>(qs, nclasses', c, h, w).
        let absolute_labels = targets episode;
            relative_labels = absolute_labels
        in
        bind_err (view (support_set episode) [ss * nclasses', c, h, w]) (\<lambda>support_batch.
        bind_err (call (backbone T (backbone_training self) (backbone_params self) support_batch)) (\<lambda>support_out.
        bind_err (view_rows support_out (ss * nclasses')) (\<lambda>support_embeddings.
        bind_err (view (query_set episode) [qs * nclasses', c, h, w]) (\<lambda>query_batch.
        bind_err (call (backbone T (backbone_training self) (backbone_params self) query_batch)) (\<lambda>query_out.
        bind_err (view_rows query_out (qs * nclasses')) (\<lambda>query_embeddings.
        bind_err (call (prototype_distance T support_embeddings query_embeddings
                          (support_relative_labels episode))) (\<lambda>the_logits.
        bind_err (call (cross_entropy T the_logits (query_relative_labels episode))) (\<lambda>the_loss.
        bind_err (call (backward T (backbone_training self) (backbone_params self)
                          support_batch query_batch
                          (support_relative_labels episode) (query_relative_labels episode))) (\<lambda>grads.
        Inr (the_logits, the_loss, grads, qs * nclasses'))))))))))))
      of
        Inl e \<Rightarrow> (Inl e, self)
      | Inr (the_logits, the_loss, grads, n) \<Rightarrow>
          (case call (optimizer_step T (optimizer self) (backbone_params self) grads) of
             Inl e \<Rightarrow> (Inl e, self)
           | Inr (optimizer', params') \<Rightarrow>
               (bind_err (call (max_index T the_logits)) (\<lambda>preds.
                bind_err (tensor_eq preds (query_relative_labels episode)) (\<lambda>m.
                Inr \<lparr>loss = the_loss, logits = the_logits, preds_match = m, n_query = n\<rparr>)),
                self\<lparr>backbone_params := params', optimizer := optimizer'\<rparr>)))"

text \<open>The exception of line 98.\<close>

definition dataset_too_small :: "'x error" where
  "dataset_too_small =
     RuntimeError ''The dataset is too small for the current support and query sizes''"

text \<open>
  The body of the loop of \<open>val_on_loader\<close> (lines 90-116): the shape check of lines 97-98,
  then the same forward computation; nothing of the object is written.
\<close>

definition val_episode ::
  "('p, 'o, 's, 'g, 'x) torch \<Rightarrow> ('p, 'o, 's) protonet \<Rightarrow> episode \<Rightarrow> 'x error + outcome" where
  "val_episode T self episode =
     bind_err (size5 (support_set episode)) (\<lambda>(ss, nclasses0, c0, h0, w0).
     bind_err (size5 (query_set episode)) (\<lambda>(qs, nclasses', c, h, w).
     if ss \<noteq> support_size episode \<or> qs \<noteq> query_size episode
     then Inl dataset_too_small
     else
       let absolute_labels = targets episode;
           relative_labels = absolute_labels
       in
       bind_err (view (support_set episode) [ss * nclasses', c, h, w]) (\<lambda>support_batch.
       bind_err (call (backbone T (backbone_training self) (backbone_params self) support_batch)) (\<lambda>support_out.
       bind_err (view_rows support_out (ss * nclasses')) (\<lambda>support_embeddings.
       bind_err (view (query_set episode) [qs * nclasses', c, h, w]) (\<lambda>query_batch.
       bind_err (call (backbone T (backbone_training self) (backbone_params self) query_batch)) (\<lambda>query_out.
       bind_err (view_rows query_out (qs * nclasses')) (\<lambda>query_embeddings.
       bind_err (call (prototype_distance T support_embeddings query_embeddings
                         (support_relative_labels episode))) (\<lambda>the_logits.
       bind_err (call (cross_entropy T the_logits (query_relative_labels episode))) (\<lambda>the_loss.
       bind_err (call (max_index T the_logits)) (\<lambda>preds.
       bind_err (tensor_eq preds (query_relative_labels episode)) (\<lambda>m.
       Inr \<lparr>loss = the_loss, logits = the_logits, preds_match = m,
            n_query = qs * nclasses'\<rparr>))))))))))))"

text \<open>
  The loops. A loader yields batches, each a list of episodes of which the body takes the
  first (\<open>episode = episode[0]\<close>). The accumulators are \<open>_loss\<close>, \<open>_accuracy\<close> and \<open>_total\<close>.
\<close>

fun train_loop ::
  "('p, 'o, 's, 'g, 'x) torch \<Rightarrow> episode list list \<Rightarrow> ('p, 'o, 's) protonet
    \<Rightarrow> real \<times> real \<times> nat \<Rightarrow> ('x error + real \<times> real \<times> nat) \<times> ('p, 'o, 's) protonet" where
  "train_loop T [] self acc = (Inr acc, self)"
| "train_loop T (batch # loader) self (sum_loss, sum_accuracy, n_total) =
     (case batch of
        [] \<Rightarrow> (Inl IndexError, self)
      | episode # _ \<Rightarrow>
          (case train_episode T self episode of
             (Inl e, self') \<Rightarrow> (Inl e, self')
           | (Inr r, self') \<Rightarrow>
               train_loop T loader self'
                 (sum_loss + loss r, sum_accuracy + float_mean T (preds_match r), n_total + 1)))"

fun val_loop ::
  "('p, 'o, 's, 'g, 'x) torch \<Rightarrow> episode list list \<Rightarrow> ('p, 'o, 's) protonet
    \<Rightarrow> real \<times> real \<times> nat \<Rightarrow> 'x error + real \<times> real \<times> nat" where
  "val_loop T [] self acc = Inr acc"
| "val_loop T (batch # loader) self (sum_loss, sum_accuracy, n_total) =
     (case batch of
        [] \<Rightarrow> Inl IndexError
      | episode # _ \<Rightarrow>
          (case val_episode T self episode of
             Inl e \<Rightarrow> Inl e
           | Inr r \<Rightarrow>
               val_loop T loader self
                 (sum_loss + loss r * real (n_query r), sum_accuracy + float_sum (preds_match r),
                  n_total + n_query r)))"

text \<open>
  \<open>train_on_loader\<close> (lines 34-77) and \<open>val_on_loader\<close> (lines 79-121). Both return the
  metrics, or the exception, together with the object as the call leaves it. A Python
  division by a zero \<open>_total\<close> raises. In \<open>val_on_loader\<close> the first division is the argument
  of \<open>scheduler.step\<close>; the lists \<open>_logits\<close> and \<open>_targets\<close> stay empty and \<open>savedir\<close> is unused.
\<close>

definition train_on_loader ::
  "('p, 'o, 's, 'g, 'x) torch \<Rightarrow> ('p, 'o, 's) protonet \<Rightarrow> episode list list
    \<Rightarrow> ('x error + (string \<times> real) list) \<times> ('p, 'o, 's) protonet" where
  "train_on_loader T self loader =
     (case train_loop T loader (self\<lparr>backbone_training := True\<rparr>) (0, 0, 0) of
        (Inl e, self') \<Rightarrow> (Inl e, self')
      | (Inr (sum_loss, sum_accuracy, n_total), self') \<Rightarrow>
          (if n_total = 0 then Inl ZeroDivisionError
           else Inr [(''train_loss'', sum_loss / real n_total),
                     (''train_accuracy'', 100 * sum_accuracy / real n_total)],
           self'))"

definition val_on_loader ::
  "('p, 'o, 's, 'g, 'x) torch \<Rightarrow> ('p, 'o, 's) protonet \<Rightarrow> episode list list \<Rightarrow> string
    \<Rightarrow> ('x error + (string \<times> real) list) \<times> ('p, 'o, 's) protonet" where
  "val_on_loader T self loader mode =
     (let self0 = self\<lparr>backbone_training := False\<rparr> in
      case val_loop T loader self0 (0, 0, 0) of
        Inl e \<Rightarrow> (Inl e, self0)
      | Inr (sum_loss, sum_accuracy, n_total) \<Rightarrow>
          if n_total = 0 then (Inl ZeroDivisionError, self0)
          else
            (case call (scheduler_step T (scheduler self0) (optimizer self0)
                          (sum_loss / real n_total)) of
               Inl e \<Rightarrow> (Inl e, self0)
             | Inr (scheduler', optimizer') \<Rightarrow>
                 (Inr [(mode @ ''_loss'', sum_loss / real n_total),
                       (mode @ ''_accuracy'', 100 * (sum_accuracy / real n_total))],
                  self0\<lparr>scheduler := scheduler', optimizer := optimizer'\<rparr>)))"

section \<open>The backbone factory (classification/backbones/__init__.py)\<close>

subsection \<open>Strings\<close>

text \<open>\<open>str.lower()\<close> on ASCII letters, and \<open>"%d" % i\<close> for a natural number.\<close>

definition lower_char :: "char \<Rightarrow> char" where
  "lower_char c =
     (case map_of (zip ''ABCDEFGHIJKLMNOPQRSTUVWXYZ'' ''abcdefghijklmnopqrstuvwxyz'') c of
        Some l \<Rightarrow> l
      | None \<Rightarrow> c)"

definition lower :: "string \<Rightarrow> string" where
  "lower s = map lower_char s"

fun str_nat :: "nat \<Rightarrow> string" where
  "str_nat n =
     (if n < 10 then [''0123456789'' ! n]
      else str_nat (n div 10) @ [''0123456789'' ! (n mod 10)])"

subsection \<open>Modules\<close>

text \<open>
  A layer as the factory sees it: its class and constructor arguments. A size given as
  one integer (\<open>3\<close>) is the pair torch makes of it (\<open>(3, 3)\<close>). A layer written
  \<open>Conv2d ...\<close> or \<open>Linear ...\<close> is one the factory constructs, freshly initialised;
  \<open>Torchvision p l\<close> is the layer \<open>l\<close> as a torchvision constructor built it, with
  \<open>pretrained = p\<close>; \<open>Block name\<close> is any other module, known by its name only.
  An object with named submodules is the ordered dictionary \<open>_modules\<close>.
\<close>

datatype layer =
    Conv2d int int "int \<times> int" "int \<times> int" "int \<times> int" bool
  | BatchNorm2d int
  | Linear int int
  | ReLU bool
  | GAP
  | Sequential "layer list"
  | Block string
  | Torchvision bool layer

type_synonym modules = "(string \<times> layer) list"

text \<open>\<open>backbone.fc.in_features\<close>: the attribute exists on a linear layer only.\<close>

definition in_features :: "modules \<Rightarrow> string \<Rightarrow> 'x error + int" where
  "in_features ms attr =
     (case map_of ms attr of
        Some (Linear i o') \<Rightarrow> Inr i
      | Some (Torchvision p (Linear i o')) \<Rightarrow> Inr i
      | _ \<Rightarrow> Inl AttributeError)"

text \<open>\<open>backbone._modules['features'][0] = l\<close>: item assignment into a \<open>Sequential\<close>.\<close>

definition set_first :: "modules \<Rightarrow> string \<Rightarrow> layer \<Rightarrow> 'x error + modules" where
  "set_first ms key l =
     (case map_of ms key of
        None \<Rightarrow> Inl KeyError
      | Some (Sequential ls) \<Rightarrow>
          (if ls = [] then Inl IndexError else Inr (AList.update key (Sequential (ls[0 := l])) ms))
      | Some (Torchvision p (Sequential ls)) \<Rightarrow>
          (if ls = [] then Inl IndexError
           else Inr (AList.update key (Torchvision p (Sequential (ls[0 := l]))) ms))
      | Some _ \<Rightarrow> Inl TypeError)"

subsection \<open>Conv4 and MLP (lines 13-62)\<close>

record conv4 =
  strides :: "int list"
  channels :: "int list"
  conv4_modules :: modules
  gap :: bool

text \<open>The loop of lines 30-33: \<open>conv%d\<close> and \<open>bn%d\<close> for each \<open>i\<close>, threading \<open>in_ch\<close>.\<close>

fun conv4_stages :: "int list \<Rightarrow> int list \<Rightarrow> nat list \<Rightarrow> int \<Rightarrow> modules" where
  "conv4_stages ss cs [] in_ch = []"
| "conv4_stages ss cs (i # rest) in_ch =
     (''conv'' @ str_nat i, Conv2d in_ch (cs ! i) (3, 3) (ss ! i, ss ! i) (1, 1) False)
     # (''bn'' @ str_nat i, BatchNorm2d (cs ! i))
     # conv4_stages ss cs rest (cs ! i)"

definition Conv4 :: "int \<Rightarrow> int \<Rightarrow> int \<Rightarrow> int \<Rightarrow> bool \<Rightarrow> conv4" where
  "Conv4 in_h in_w in_channels output_size use_gap =
     (let in_size = min in_w in_h;
          ratio = in_size div 4;
          the_strides =
            (if ratio \<ge> 16 then [2, 2, 2, 2]
             else if ratio \<ge> 8 then [1, 2, 2, 2]
             else if ratio \<ge> 4 then [1, 2, 2, 1]
             else if ratio \<ge> 2 then [1, 2, 1, 1]
             else [1, 1, 1, 1]);
          the_channels = [32, 64, 128, 256];
          stages = conv4_stages the_strides the_channels [0..<4] in_channels;
          out = (if use_gap then Linear (last the_channels) output_size
                 else Linear (last the_channels * 4 * 4) output_size)
      in \<lparr>strides = the_strides, channels = the_channels,
          conv4_modules = stages @ [(''out'', out)], gap = use_gap\<rparr>)"

record mlp =
  depth :: int
  mlp_modules :: modules

definition MLP :: "int \<Rightarrow> int \<Rightarrow> int \<Rightarrow> int \<Rightarrow> mlp" where
  "MLP ni no nhidden the_depth =
     (let linears =
            map (\<lambda>i. (''linear'' @ str_nat i,
                       if i = 0 then Linear ni nhidden else Linear nhidden nhidden))
              [0..<nat the_depth];
          nhidden' = (if the_depth = 0 then ni else nhidden)
      in \<lparr>depth = the_depth, mlp_modules = linears @ [(''out'', Linear nhidden' no)]\<rparr>)"

subsection \<open>\<open>get_backbone\<close> (lines 71-128)\<close>

text \<open>
  The experiment dictionary, one field per key path the factory reads. A key that only
  some branches read may be missing (\<open>None\<close>): \<open>d[k]\<close> then raises \<open>KeyError\<close> and
  \<open>d.get(k, v)\<close> gives \<open>v\<close>.
\<close>

record exp_dict =
  num_classes :: int
  backbone_name :: string
  backbone_imagenet_pretraining :: "bool option"
  backbone_depth :: "int option"
  backbone_width :: "int option"
  backbone_gap :: "bool option"
  backbone_hidden_size :: "int option"
  dataset_channels :: int
  dataset_height :: int
  dataset_width :: int

definition getitem :: "'a option \<Rightarrow> 'x error + 'a" where
  "getitem v = (case v of None \<Rightarrow> Inl KeyError | Some a \<Rightarrow> Inr a)"

definition get_default :: "'a option \<Rightarrow> 'a \<Rightarrow> 'a" where
  "get_default v d = (case v of None \<Rightarrow> d | Some a \<Rightarrow> a)"

text \<open>
  The constructors the factory imports: torchvision's \<open>models.resnet18\<close>, \<open>resnet50\<close> and
  \<open>vgg16_bn\<close> (each from the \<open>pretrained\<close> flag to the submodules of the object), and this
  repository's \<open>WideResNet\<close> and \<open>Resnet12\<close>, whose files are not among the three.
\<close>

record library =
  resnet18 :: "bool \<Rightarrow> modules"
  resnet50 :: "bool \<Rightarrow> modules"
  vgg16_bn :: "bool \<Rightarrow> modules"
  WideResNet :: "int \<Rightarrow> int \<Rightarrow> int \<Rightarrow> modules"
  Resnet12 :: "int \<Rightarrow> int \<Rightarrow> int \<Rightarrow> modules"

text \<open>What the factory returns: an object with its submodules, by class.\<close>

datatype network =
    ResNet modules
  | WRN modules
  | RN12 modules
  | SequentialNet "layer list"
  | Conv4Net conv4
  | MLPNet mlp

text \<open>
  \<open>assert(not(p))\<close> raises \<open>AssertionError\<close> when \<open>p\<close> holds (Python run without \<open>-O\<close>).
  Assigning a submodule under an existing name keeps its place in \<open>_modules\<close>; under a
  new name it is added last: \<open>AList.update\<close>.
\<close>

definition get_backbone :: "library \<Rightarrow> exp_dict \<Rightarrow> 'x error + network" where
  "get_backbone models exp_dict =
     (let nclasses = num_classes exp_dict;
          name = lower (backbone_name exp_dict)
      in
      if name = ''resnet18'' then
        bind_err (getitem (backbone_imagenet_pretraining exp_dict)) (\<lambda>pretrained.
        let backbone = resnet18 models pretrained in
        bind_err (in_features backbone ''fc'') (\<lambda>num_ftrs.
        let backbone = AList.update ''fc'' (Linear num_ftrs nclasses) backbone in
        if dataset_channels exp_dict \<noteq> 3 then
          (if pretrained then Inl AssertionError
           else Inr (ResNet (AList.update ''conv1''
                      (Conv2d (dataset_channels exp_dict) 64 (7, 7) (2, 2) (3, 3) False) backbone)))
        else Inr (ResNet backbone)))
      else if name = ''resnet50'' then
        bind_err (getitem (backbone_imagenet_pretraining exp_dict)) (\<lambda>pretrained.
        let backbone = resnet50 models pretrained in
        bind_err (in_features backbone ''fc'') (\<lambda>num_ftrs.
        let backbone = AList.update ''fc'' (Linear num_ftrs nclasses) backbone in
        if dataset_channels exp_dict \<noteq> 3 then
          (if pretrained then Inl AssertionError
           else Inr (ResNet (AList.update ''conv1''
                      (Conv2d (dataset_channels exp_dict) 64 (7, 7) (2, 2) (3, 3) False) backbone)))
        else Inr (ResNet backbone)))
      else if name = ''wrn'' then
        (let backbone = WideResNet models (get_default (backbone_depth exp_dict) 28)
                          (get_default (backbone_width exp_dict) 10) nclasses
         in
         if dataset_channels exp_dict \<noteq> 3 then
           Inr (WRN (AList.update ''conv0''
                  (Conv2d (dataset_channels exp_dict) 16 (3, 3) (1, 1) (1, 1) False) backbone))
         else Inr (WRN backbone))
      else if name = ''resnet12'' then
        Inr (RN12 (Resnet12 models 1 (dataset_channels exp_dict) nclasses))
      else if name = ''vgg16'' then
        bind_err (getitem (backbone_imagenet_pretraining exp_dict)) (\<lambda>pretrained.
        let backbone = vgg16_bn models pretrained in
        bind_err
          (if dataset_channels exp_dict \<noteq> 3 then
             (if pretrained then Inl AssertionError
              else set_first backbone ''features''
                     (Conv2d (dataset_channels exp_dict) 64 (3, 3) (1, 1) (1, 1) True))
           else Inr backbone) (\<lambda>backbone.
        let children = map snd backbone;
            children = take (length children - 2) children;
            output = Sequential [GAP, Linear 512 4096, ReLU True, Linear 4096 4096, ReLU True,
                                 Linear 4096 nclasses]
        in Inr (SequentialNet (children @ [output]))))
      else if name = ''conv4'' then
        bind_err (getitem (backbone_gap exp_dict)) (\<lambda>use_gap.
        Inr (Conv4Net (Conv4 (dataset_height exp_dict) (dataset_width exp_dict)
                         (dataset_channels exp_dict) nclasses use_gap)))
      else if name = ''mlp'' then
        bind_err (getitem (backbone_hidden_size exp_dict)) (\<lambda>hidden_size.
        bind_err (getitem (backbone_depth exp_dict)) (\<lambda>the_depth.
        Inr (MLPNet (MLP (dataset_height exp_dict * dataset_width exp_dict
                            * dataset_channels exp_dict)
                         nclasses hidden_size the_depth))))
      else Inl ValueError)"

section \<open>The run (generation/trainval.py, function trainval)\<close>

text \<open>
  A score dictionary maps metric names to numbers; \<open>d[k] = v\<close> and \<open>d.update\<close> keep the order
  of insertion. The epoch is stored as a Python \<open>int\<close>, a metric as a \<open>float\<close>.
\<close>

datatype pyval = PyInt int | PyFloat real

type_synonym score_dict = "(string \<times> pyval) list"

definition dict_update :: "score_dict \<Rightarrow> score_dict \<Rightarrow> score_dict" where
  "dict_update d other = foldl (\<lambda>d (k, v). AList.update k v d) d other"

text \<open>
  The two files of the experiment directory that the run reads back: \<open>model.pth\<close> and
  \<open>score_list.pkl\<close>, each absent or holding what was last saved to it. (The directory
  also holds \<open>exp_dict.json\<close> and the tensorboard log, which the run never reads.)
\<close>

record 'sd files =
  model_pth :: "'sd option"
  score_list_pkl :: "score_dict list option"

text \<open>
  The model comes from \<open>models.get_model\<close>, which is not among the three files: its four
  methods are parameters, over a model state \<open>'m\<close> and a state dictionary \<open>'sd\<close>. The two
  epoch methods get the epoch number (the loaders are fixed for the run) and may raise.
\<close>

record ('m, 'sd, 'x) model =
  load_state_dict :: "'m \<Rightarrow> 'sd \<Rightarrow> 'm"
  get_state_dict :: "'m \<Rightarrow> 'sd"
  model_train_on_loader :: "'m \<Rightarrow> int \<Rightarrow> 'x + (score_dict \<times> 'm)"
  model_val_on_loader :: "'m \<Rightarrow> int \<Rightarrow> 'x + (score_dict \<times> 'm)"

text \<open>Lines 83-91: resume from the files, or start afresh.\<close>

definition add_one :: "pyval \<Rightarrow> pyval" where
  "add_one v = (case v of PyInt n \<Rightarrow> PyInt (n + 1) | PyFloat x \<Rightarrow> PyFloat (x + 1))"

definition resume ::
  "('m, 'sd, 'x) model \<Rightarrow> 'sd files \<Rightarrow> 'm \<Rightarrow> 'x error + ('m \<times> score_dict list \<times> pyval)" where
  "resume M fs the_model =
     (case score_list_pkl fs of
        Some saved \<Rightarrow>
          (case model_pth fs of
             None \<Rightarrow> Inl FileNotFoundError
           | Some sd \<Rightarrow>
               (let the_model = load_state_dict M the_model sd;
                    score_list = saved
                in case score_list of
                     [] \<Rightarrow> Inl IndexError
                   | _ \<Rightarrow>
                       (case map_of (last score_list) ''epoch'' of
                          None \<Rightarrow> Inl KeyError
                        | Some v \<Rightarrow> Inr (the_model, score_list, add_one v))))
      | None \<Rightarrow> Inr (the_model, [], PyInt 0))"

text \<open>\<open>range(s_epoch, max_epoch)\<close>: both ends must be integers.\<close>

definition py_range :: "pyval \<Rightarrow> int \<Rightarrow> 'x error + int list" where
  "py_range s_epoch max_epoch =
     (case s_epoch of PyInt s \<Rightarrow> Inr [s..max_epoch - 1] | PyFloat x \<Rightarrow> Inl TypeError)"

text \<open>
  Lines 98-121, one pass of the loop: train, validate, record the epoch, append to the
  score list, then save. The pass ends with two saves, in this order:
  \<open>hu.torch_save(model_path, model.get_state_dict())\<close> and
  \<open>hu.save_pkl(score_list_path, score_list)\<close>.

  Both functions are the haven library's. Each writes its payload to a temporary file,
  removes the file of the given name if there is one, and renames the temporary file to
  that name. Of these only the removal and the renaming touch the two files the run
  reads back, so a save is two steps on them, and between the two the file is absent.
\<close>

datatype 'sd save = Torch_save 'sd | Save_pkl "score_dict list"

datatype 'sd file_step =
    Remove_model
  | Rename_model 'sd
  | Remove_score_list
  | Rename_score_list "score_dict list"

definition file_steps :: "'sd save \<Rightarrow> 'sd file_step list" where
  "file_steps w =
     (case w of
        Torch_save sd \<Rightarrow> [Remove_model, Rename_model sd]
      | Save_pkl sl \<Rightarrow> [Remove_score_list, Rename_score_list sl])"

definition do_step :: "'sd files \<Rightarrow> 'sd file_step \<Rightarrow> 'sd files" where
  "do_step fs st =
     (case st of
        Remove_model \<Rightarrow> fs\<lparr>model_pth := None\<rparr>
      | Rename_model sd \<Rightarrow> fs\<lparr>model_pth := Some sd\<rparr>
      | Remove_score_list \<Rightarrow> fs\<lparr>score_list_pkl := None\<rparr>
      | Rename_score_list sl \<Rightarrow> fs\<lparr>score_list_pkl := Some sl\<rparr>)"

definition write_file :: "'sd files \<Rightarrow> 'sd save \<Rightarrow> 'sd files" where
  "write_file fs w = foldl do_step fs (file_steps w)"

definition epoch_pass ::
  "('m, 'sd, 'x) model \<Rightarrow> int \<Rightarrow> 'm \<times> score_dict list
    \<Rightarrow> 'x error + ('m \<times> score_dict list \<times> 'sd save list)" where
  "epoch_pass M e st =
     (case st of (the_model, score_list) \<Rightarrow>
        let score_dict = [] in
        bind_err (call (model_train_on_loader M the_model e)) (\<lambda>(train_scores, the_model).
        let score_dict = dict_update score_dict train_scores in
        bind_err (call (model_val_on_loader M the_model e)) (\<lambda>(val_scores, the_model).
        let score_dict = dict_update score_dict val_scores;
            score_dict = AList.update ''epoch'' (PyInt e) score_dict;
            score_list = score_list @ [score_dict]
        in Inr (the_model, score_list,
                [Torch_save (get_state_dict M the_model), Save_pkl score_list]))))"

fun epochs ::
  "('m, 'sd, 'x) model \<Rightarrow> int list \<Rightarrow> 'm \<times> score_dict list \<Rightarrow> 'sd files
    \<Rightarrow> ('x error + 'm \<times> score_dict list) \<times> 'sd files" where
  "epochs M [] st fs = (Inr st, fs)"
| "epochs M (e # es) st fs =
     (case epoch_pass M e st of
        Inl err \<Rightarrow> (Inl err, fs)
      | Inr (the_model, score_list, saves) \<Rightarrow>
          epochs M es (the_model, score_list) (foldl write_file fs saves))"

text \<open>
  \<open>trainval\<close>: \<open>reset\<close> moves the experiment directory away; then resume and loop. The
  result is the final model and score list, or the exception, with the files as the run
  leaves them.
\<close>

definition trainval ::
  "('m, 'sd, 'x) model \<Rightarrow> 'sd files \<Rightarrow> 'm \<Rightarrow> bool \<Rightarrow> int
    \<Rightarrow> ('x error + 'm \<times> score_dict list) \<times> 'sd files" where
  "trainval M fs the_model reset max_epoch =
     (let fs = (if reset then \<lparr>model_pth = None, score_list_pkl = None\<rparr> else fs) in
      case resume M fs the_model of
        Inl err \<Rightarrow> (Inl err, fs)
      | Inr (the_model, score_list, s_epoch) \<Rightarrow>
          (case py_range s_epoch max_epoch of
             Inl err \<Rightarrow> (Inl err, fs)
           | Inr es \<Rightarrow> epochs M es (the_model, score_list) fs))"

text \<open>
  An interruption of the process during the saves of epoch \<open>e\<close>: only the first \<open>k\<close> of the
  steps of the two saves have happened.
\<close>

definition interrupted ::
  "('m, 'sd, 'x) model \<Rightarrow> int \<Rightarrow> 'm \<times> score_dict list \<Rightarrow> 'sd files \<Rightarrow> nat \<Rightarrow> 'sd files" where
  "interrupted M e st fs k =
     (case epoch_pass M e st of
        Inl err \<Rightarrow> fs
      | Inr (the_model, score_list, saves) \<Rightarrow>
          foldl do_step fs (take k (concat (map file_steps saves))))"

section \<open>Notions the properties are stated with\<close>

text \<open>
  The outcomes of the episodes of one epoch, in order, up to the first one that raises:
  the loop replayed, collecting instead of accumulating.
\<close>

fun train_outcomes ::
  "('p, 'o, 's, 'g, 'x) torch \<Rightarrow> episode list list \<Rightarrow> ('p, 'o, 's) protonet \<Rightarrow> outcome list" where
  "train_outcomes T [] self = []"
| "train_outcomes T (batch # loader) self =
     (case batch of
        [] \<Rightarrow> []
      | episode # _ \<Rightarrow>
          (case train_episode T self episode of
             (Inl e, self') \<Rightarrow> []
           | (Inr r, self') \<Rightarrow> r # train_outcomes T loader self'))"

fun val_outcomes ::
  "('p, 'o, 's, 'g, 'x) torch \<Rightarrow> episode list list \<Rightarrow> ('p, 'o, 's) protonet \<Rightarrow> outcome list" where
  "val_outcomes T [] self = []"
| "val_outcomes T (batch # loader) self =
     (case batch of
        [] \<Rightarrow> []
      | episode # _ \<Rightarrow>
          (case val_episode T self episode of
             Inl e \<Rightarrow> []
           | Inr r \<Rightarrow> r # val_outcomes T loader self))"

definition arith_mean :: "real list \<Rightarrow> real" where
  "arith_mean xs = sum_list xs / real (length xs)"

text \<open>
  Per episode: the mean accuracy (the share of query rows predicted right, as
  \<open>.float().mean()\<close> gives it), the number of query rows predicted right, and the loss
  weighted by the number of query rows.
\<close>

definition episode_accuracy :: "('p, 'o, 's, 'g, 'x) torch \<Rightarrow> outcome \<Rightarrow> real" where
  "episode_accuracy T r = float_mean T (preds_match r)"

definition episode_correct :: "outcome \<Rightarrow> real" where
  "episode_correct r = float_sum (preds_match r)"

definition episode_weighted_loss :: "outcome \<Rightarrow> real" where
  "episode_weighted_loss r = loss r * real (n_query r)"

text \<open>
  The exceptions of the torch operations written out above, and of the calls into code
  outside the three files.
\<close>

definition torch_error :: "'x error \<Rightarrow> bool" where
  "torch_error e \<longleftrightarrow>
     e = ValueError \<or> (\<exists>x. e = Raised x) \<or>
     e = RuntimeError ''shape is invalid for input size'' \<or>
     e = RuntimeError ''cannot reshape tensor of 0 elements: the unspecified dimension size -1 is ambiguous'' \<or>
     e = RuntimeError ''The size of tensor a must match the size of tensor b''"

text \<open>The strides of the convolutions among the submodules of an object, in order.\<close>

fun conv_strides :: "modules \<Rightarrow> (int \<times> int) list" where
  "conv_strides [] = []"
| "conv_strides ((name, Conv2d i out k s p b) # ms) = s # conv_strides ms"
| "conv_strides ((name, l) # ms) = conv_strides ms"

text \<open>The head that the factory puts on \<open>vgg16\<close> (lines 105-112).\<close>

definition vgg_head :: "int \<Rightarrow> layer" where
  "vgg_head n =
     Sequential [GAP, Linear 512 4096, ReLU True, Linear 4096 4096, ReLU True, Linear 4096 n]"

text \<open>
  \<open>d['epoch']\<close> of a score dictionary, and the files a run can read back without an
  exception: if there is a score list, there is a model file too, and the list ends with
  an entry whose epoch is an integer.
\<close>

definition epoch_of :: "score_dict \<Rightarrow> pyval option" where
  "epoch_of d = map_of d ''epoch''"

definition files_ok :: "'sd files \<Rightarrow> bool" where
  "files_ok fs =
     (case score_list_pkl fs of
        None \<Rightarrow> True
      | Some sl \<Rightarrow> model_pth fs \<noteq> None \<and> sl \<noteq> [] \<and> (\<exists>n. epoch_of (last sl) = Some (PyInt n)))"

section \<open>Small instances\<close>

text \<open>
  A trainer whose backbone is the identity, whose logits are the query embeddings and
  whose predicted class of a row is the integer part of its first pixel; the optimizer
  and the scheduler count their steps.
\<close>

definition example_torch :: "(real, nat, nat, real, unit) torch" where
  "example_torch =
     \<lparr>backbone = (\<lambda>training p x. Inr x),
      prototype_distance = (\<lambda>s q labels. Inr q),
      cross_entropy = (\<lambda>lg labels. Inr (1 / 2)),
      backward = (\<lambda>training p sb qb sl ql. Inr 1),
      optimizer_step = (\<lambda>opt p g. Inr (opt + 1, p - g)),
      max_index = (\<lambda>lg. Inr (map (\<lambda>x. \<lfloor>x\<rfloor>) (data lg))),
      float_mean = (\<lambda>m. float_sum m / real (length m)),
      scheduler_step = (\<lambda>s opt x. Inr (s + 1, opt))\<rparr>"

definition example_net :: "(real, nat, nat) protonet" where
  "example_net =
     \<lparr>backbone_params = 0, backbone_training = False, optimizer = 0, scheduler = 0,
      best_val = 0\<rparr>"

text \<open>
  Two classes, one-pixel images whose pixel is the class. \<open>episode_a\<close>: one support and one
  query image per class, all queries right. \<open>episode_b\<close>: two query images per class, the
  first two rows swapped, so half of them right.
\<close>

definition episode_a :: episode where
  "episode_a =
     \<lparr>support_set = \<lparr>shape = [1, 2, 1, 1, 1], data = [0, 1]\<rparr>,
      query_set = \<lparr>shape = [1, 2, 1, 1, 1], data = [0, 1]\<rparr>,
      targets = [7, 9], nclasses = 2, support_size = 1, query_size = 1\<rparr>"

definition episode_b :: episode where
  "episode_b =
     \<lparr>support_set = \<lparr>shape = [1, 2, 1, 1, 1], data = [0, 1]\<rparr>,
      query_set = \<lparr>shape = [2, 2, 1, 1, 1], data = [1, 0, 0, 1]\<rparr>,
      targets = [3, 4], nclasses = 2, support_size = 1, query_size = 2\<rparr>"

text \<open>
  Two trainers that show what the trainer calls \<open>prototype_distance\<close> and the loss with:
  the backbone is the identity and the call raises with its arguments. In the second the
  logits are the query embeddings, as in \<open>example_torch\<close>.
\<close>

datatype spied =
    Classifier tensor tensor "int list"
  | Loss tensor "int list"

definition spy_classifier :: "(real, nat, nat, real, spied) torch" where
  "spy_classifier =
     \<lparr>backbone = (\<lambda>training p x. Inr x),
      prototype_distance = (\<lambda>s q labels. Inl (Classifier s q labels)),
      cross_entropy = (\<lambda>lg labels. Inr (1 / 2)),
      backward = (\<lambda>training p sb qb sl ql. Inr 1),
      optimizer_step = (\<lambda>opt p g. Inr (opt + 1, p - g)),
      max_index = (\<lambda>lg. Inr (map (\<lambda>x. \<lfloor>x\<rfloor>) (data lg))),
      float_mean = (\<lambda>m. float_sum m / real (length m)),
      scheduler_step = (\<lambda>s opt x. Inr (s + 1, opt))\<rparr>"

definition spy_loss :: "(real, nat, nat, real, spied) torch" where
  "spy_loss =
     \<lparr>backbone = (\<lambda>training p x. Inr x),
      prototype_distance = (\<lambda>s q labels. Inr q),
      cross_entropy = (\<lambda>lg labels. Inl (Loss lg labels)),
      backward = (\<lambda>training p sb qb sl ql. Inr 1),
      optimizer_step = (\<lambda>opt p g. Inr (opt + 1, p - g)),
      max_index = (\<lambda>lg. Inr (map (\<lambda>x. \<lfloor>x\<rfloor>) (data lg))),
      float_mean = (\<lambda>m. float_sum m / real (length m)),
      scheduler_step = (\<lambda>s opt x. Inr (s + 1, opt))\<rparr>"

text \<open>
  An outline of the torchvision objects: the submodule names of \<open>ResNet\<close> and \<open>VGG\<close>, the
  first convolution and the last linear layer with their sizes, everything else a block.
\<close>

definition resnet_outline :: "int \<Rightarrow> bool \<Rightarrow> modules" where
  "resnet_outline num_ftrs p =
     [(''conv1'', Torchvision p (Conv2d 3 64 (7, 7) (2, 2) (3, 3) False)),
      (''bn1'', Torchvision p (BatchNorm2d 64)),
      (''relu'', Torchvision p (ReLU True)),
      (''maxpool'', Torchvision p (Block ''maxpool'')),
      (''layer1'', Torchvision p (Block ''layer1'')),
      (''layer2'', Torchvision p (Block ''layer2'')),
      (''layer3'', Torchvision p (Block ''layer3'')),
      (''layer4'', Torchvision p (Block ''layer4'')),
      (''avgpool'', Torchvision p (Block ''avgpool'')),
      (''fc'', Torchvision p (Linear num_ftrs 1000))]"

definition example_library :: library where
  "example_library =
     \<lparr>resnet18 = resnet_outline 512,
      resnet50 = resnet_outline 2048,
      vgg16_bn = (\<lambda>p.
        [(''features'', Torchvision p (Sequential
            [Torchvision p (Conv2d 3 64 (3, 3) (1, 1) (1, 1) True),
             Torchvision p (Block ''features[1:]'')])),
         (''avgpool'', Torchvision p (Block ''avgpool'')),
         (''classifier'', Torchvision p (Block ''classifier''))]),
      WideResNet = (\<lambda>d w n. [(''conv0'', Block ''conv0''), (''blocks'', Block ''blocks'')]),
      Resnet12 = (\<lambda>a b n. [(''blocks'', Block ''blocks'')])\<rparr>"

definition example_exp :: exp_dict where
  "example_exp =
     \<lparr>num_classes = 10, backbone_name = ''ResNet18'',
      backbone_imagenet_pretraining = Some False, backbone_depth = None,
      backbone_width = None, backbone_gap = Some True, backbone_hidden_size = None,
      dataset_channels = 3, dataset_height = 32, dataset_width = 32\<rparr>"

text \<open>
  A model whose state is the number of training epochs its weights have been through, and
  whose state dictionary is that number.
\<close>

definition counting_model :: "(nat, nat, unit) model" where
  "counting_model =
     \<lparr>load_state_dict = (\<lambda>m sd. sd),
      get_state_dict = (\<lambda>m. m),
      model_train_on_loader = (\<lambda>m e. Inr ([(''train_loss'', PyFloat 0)], Suc m)),
      model_val_on_loader = (\<lambda>m e. Inr ([(''val_loss'', PyFloat 0)], m))\<rparr>"

text \<open>What one epoch of the counting model records, and the files after its epoch 0.\<close>

definition example_scores :: "int \<Rightarrow> score_dict" where
  "example_scores e = [(''train_loss'', PyFloat 0), (''val_loss'', PyFloat 0), (''epoch'', PyInt e)]"

definition example_files :: "nat files" where
  "example_files = \<lparr>model_pth = Some 1, score_list_pkl = Some [example_scores 0]\<rparr>"

section \<open>Results and exceptions: basic facts\<close>

lemma bind_err_simps [simp]:
  "bind_err (Inl e) f = Inl e"
  "bind_err (Inr a) f = f a"
  by (simp_all add: bind_err_def)

lemma call_simps [simp]:
  "call (Inl x) = Inl (Raised x)"
  "call (Inr a) = Inr a"
  by (simp_all add: call_def)

lemma bind_err_eq_Inr: "bind_err m f = Inr r \<longleftrightarrow> (\<exists>a. m = Inr a \<and> f a = Inr r)"
  by (cases m) simp_all

lemma bind_err_eq_Inl:
  "bind_err m f = Inl e \<longleftrightarrow> m = Inl e \<or> (\<exists>a. m = Inr a \<and> f a = Inl e)"
  by (cases m) simp_all

lemma call_eq_Inl: "call r = Inl e \<longleftrightarrow> (\<exists>x. r = Inl x \<and> e = Raised x)"
  by (cases r) auto

section \<open>Relative labels\<close>

lemma nth_concat_replicate:
  "i < s * length xs \<Longrightarrow> concat (replicate s xs) ! i = xs ! (i mod length xs)"
proof (induction s arbitrary: i)
  case 0
  then show ?case by simp
next
  case (Suc s)
  show ?case
  proof (cases "i < length xs")
    case True
    then show ?thesis by (simp add: nth_append)
  next
    case False
    with Suc.prems have "i - length xs < s * length xs" by simp
    from Suc.IH [OF this] False show ?thesis
      by (simp add: nth_append le_mod_geq)
  qed
qed

lemma count_list_concat_replicate:
  "count_list (concat (replicate s xs)) k = s * count_list xs k"
  by (induction s) simp_all

lemma count_list_upt: "count_list (map int [0..<n]) (int k) = (if k < n then 1 else 0)"
  by (induction n) auto

lemma length_concat_replicate: "length (concat (replicate s xs)) = s * length xs"
  by (induction s) simp_all

lemma relative_labels_unfold:
  "view_flat (repeat_rows s (view_1_row (arange n))) = concat (replicate s (map int [0..<n]))"
  by (simp add: view_flat_def repeat_rows_def view_1_row_def arange_def)

lemma labels_nth:
  assumes "i < s * n"
  shows "concat (replicate s (map int [0..<n])) ! i = int (i mod n)"
proof -
  from assms have "0 < n" by (cases n) simp_all
  with assms show ?thesis by (simp add: nth_concat_replicate)
qed

text \<open>
  Viewing a tensor of shape \<open>(s, n, c, h, w)\<close> as \<open>(s * n, c, h, w)\<close> succeeds, and row \<open>i\<close> of
  the batch is the image of sample \<open>i div n\<close> in class slot \<open>i mod n\<close>.
\<close>

lemma row_of_view:
  assumes "shape t = [s, n, c, h, w]"
  shows "\<exists>b. (view t [s * n, c, h, w] :: 'x error + tensor) = Inr b
           \<and> shape b = [s * n, c, h, w]
           \<and> (\<forall>i. row_at b i = image_at t (i div n) (i mod n))"
  using assms by (simp add: view_def numel_def row_at_def image_at_def algebra_simps)

lemma labelled_rows:
  assumes "shape t = [s, n, c, h, w]"
    and "labels = concat (replicate s (map int [0..<n]))"
  shows "\<exists>b. (view t [s * n, c, h, w] :: 'x error + tensor) = Inr b
           \<and> length labels = hd (shape b)
           \<and> (\<forall>i<s * n. row_at b i = image_at t (i div n) (nat (labels ! i)))"
proof -
  from row_of_view [OF assms(1), where 'x = 'x] obtain b where
    b: "(view t [s * n, c, h, w] :: 'x error + tensor) = Inr b"
      "shape b = [s * n, c, h, w]"
      "\<forall>i. row_at b i = image_at t (i div n) (i mod n)"
    by blast
  then show ?thesis
    by (simp add: assms(2) length_concat_replicate labels_nth)
qed

subsection \<open>The embeddings and what is called with them\<close>

text \<open>
  \<open>x.view(n, -1)\<close> of the backbone's output: the data is kept, there are \<open>n\<close> rows, and if
  the output had \<open>n\<close> as its first dimension the rows are the output's rows.
\<close>

lemma view_rows_Inr:
  assumes "(view_rows t n :: 'x error + tensor) = Inr r"
  shows "shape r = [n, numel t div n]" and "data r = data t" and "0 < n"
    and "numel t mod n = 0"
  using assms by (auto simp: view_rows_def split: if_splits)

lemma view_rows_row_at:
  assumes "(view_rows t n :: 'x error + tensor) = Inr r"
    and "shape t = n # rest"
  shows "row_at r i = row_at t i"
proof -
  from view_rows_Inr [OF assms(1)] have r: "shape r = [n, numel t div n]" "data r = data t" "0 < n"
    by simp_all
  from assms(2) r(3) have "numel t div n = prod_list rest"
    by (simp add: numel_def)
  with r assms(2) show ?thesis
    by (simp add: row_at_def)
qed

text \<open>
  With the declared shapes the two \<open>size()\<close> agree with the episode's fields, the shape
  check of validation passes and the two views succeed; what remains of the loop body
  is the calls on the embeddings.
\<close>

lemma val_episode_embedded:
  assumes "shape (support_set ep) = [support_size ep, nclasses ep, c, h, w]"
    and "shape (query_set ep) = [query_size ep, nclasses ep, c, h, w]"
    and "(view (support_set ep) [support_size ep * nclasses ep, c, h, w] :: 'x error + tensor) = Inr sb"
    and "(view (query_set ep) [query_size ep * nclasses ep, c, h, w] :: 'x error + tensor) = Inr qb"
    and "backbone T (backbone_training self) (backbone_params self) sb = Inr so"
    and "(view_rows so (support_size ep * nclasses ep) :: 'x error + tensor) = Inr se"
    and "backbone T (backbone_training self) (backbone_params self) qb = Inr qo"
    and "(view_rows qo (query_size ep * nclasses ep) :: 'x error + tensor) = Inr qe"
  shows "val_episode (T :: ('p, 'o, 's, 'g, 'x) torch) self ep =
           bind_err (call (prototype_distance T se qe (support_relative_labels ep))) (\<lambda>the_logits.
           bind_err (call (cross_entropy T the_logits (query_relative_labels ep))) (\<lambda>the_loss.
           bind_err (call (max_index T the_logits)) (\<lambda>preds.
           bind_err (tensor_eq preds (query_relative_labels ep)) (\<lambda>m.
           Inr \<lparr>loss = the_loss, logits = the_logits, preds_match = m,
                n_query = query_size ep * nclasses ep\<rparr>))))"
  unfolding val_episode_def size5_def assms(1,2) using assms(3-)
  by (simp add: Let_def)

lemma train_episode_embedded:
  assumes "shape (support_set ep) = [support_size ep, nclasses ep, c, h, w]"
    and "shape (query_set ep) = [query_size ep, nclasses ep, c, h, w]"
    and "(view (support_set ep) [support_size ep * nclasses ep, c, h, w] :: 'x error + tensor) = Inr sb"
    and "(view (query_set ep) [query_size ep * nclasses ep, c, h, w] :: 'x error + tensor) = Inr qb"
    and "backbone T (backbone_training self) (backbone_params self) sb = Inr so"
    and "(view_rows so (support_size ep * nclasses ep) :: 'x error + tensor) = Inr se"
    and "backbone T (backbone_training self) (backbone_params self) qb = Inr qo"
    and "(view_rows qo (query_size ep * nclasses ep) :: 'x error + tensor) = Inr qe"
  shows "fst (train_episode (T :: ('p, 'o, 's, 'g, 'x) torch) self ep) =
           bind_err (call (prototype_distance T se qe (support_relative_labels ep))) (\<lambda>the_logits.
           bind_err (call (cross_entropy T the_logits (query_relative_labels ep))) (\<lambda>the_loss.
           bind_err (call (backward T (backbone_training self) (backbone_params self) sb qb
                             (support_relative_labels ep) (query_relative_labels ep))) (\<lambda>grads.
           bind_err (call (optimizer_step T (optimizer self) (backbone_params self) grads)) (\<lambda>stepped.
           bind_err (call (max_index T the_logits)) (\<lambda>preds.
           bind_err (tensor_eq preds (query_relative_labels ep)) (\<lambda>m.
           Inr \<lparr>loss = the_loss, logits = the_logits, preds_match = m,
                n_query = query_size ep * nclasses ep\<rparr>))))))"
  unfolding train_episode_def size5_def assms(1,2) using assms(3-)
  by (auto simp: Let_def bind_err_def call_def split: sum.splits prod.splits)

text \<open>
  C1. For an episode with \<open>nclasses = C\<close>, \<open>support_size = S\<close> and \<open>query_size = Q\<close> whose
  tensors have the declared shapes \<open>(S, C, c, h, w)\<close> and \<open>(Q, C, c, h, w)\<close>: the support
  labels are the class indices \<open>0..C-1\<close> laid out \<open>S\<close> times one after the other, so every
  class index occurs \<open>S\<close> times; the flattening of the support tensor that is fed to the
  backbone succeeds, has as many rows as there are labels, and its row \<open>i\<close> is the image in
  the class slot that label \<open>i\<close> names. The same holds for the query side with \<open>Q\<close>.

  Both loop bodies pair these labels with the rows of the embedding batches. Whenever the
  backbone returns on the two flattened batches and its outputs can be viewed as \<open>S * C\<close>
  and \<open>Q * C\<close> rows, the embedding batches have as many rows as there are labels; if the
  backbone's output has one row per image, computed from that image alone, row \<open>i\<close> of the
  embedding batch is computed from the image in the class slot that label \<open>i\<close> names; and
  the rest of the body is \<open>prototype_distance\<close> on the two embedding batches with the
  support labels, the loss of the logits against the query labels, and the comparison of
  the predictions with the query labels.
\<close>

theorem relative_labels_follow_rows:
  assumes "shape (support_set ep) = [support_size ep, nclasses ep, c, h, w]"
    and "shape (query_set ep) = [query_size ep, nclasses ep, c, h, w]"
  shows "support_relative_labels ep
           = concat (replicate (support_size ep) (map int [0..<nclasses ep]))
    \<and> (\<forall>k<nclasses ep. count_list (support_relative_labels ep) (int k) = support_size ep)
    \<and> (\<exists>b. (view (support_set ep) [support_size ep * nclasses ep, c, h, w]
                :: 'x error + tensor) = Inr b
          \<and> length (support_relative_labels ep) = hd (shape b)
          \<and> (\<forall>i<support_size ep * nclasses ep.
                row_at b i = image_at (support_set ep) (i div nclasses ep)
                               (nat (support_relative_labels ep ! i))))
    \<and> query_relative_labels ep
           = concat (replicate (query_size ep) (map int [0..<nclasses ep]))
    \<and> (\<forall>k<nclasses ep. count_list (query_relative_labels ep) (int k) = query_size ep)
    \<and> (\<exists>b. (view (query_set ep) [query_size ep * nclasses ep, c, h, w]
                :: 'x error + tensor) = Inr b
          \<and> length (query_relative_labels ep) = hd (shape b)
          \<and> (\<forall>i<query_size ep * nclasses ep.
                row_at b i = image_at (query_set ep) (i div nclasses ep)
                               (nat (query_relative_labels ep ! i))))
    \<and> (\<forall>sb qb so qo se qe.
          (view (support_set ep) [support_size ep * nclasses ep, c, h, w]
             :: 'x error + tensor) = Inr sb \<longrightarrow>
          (view (query_set ep) [query_size ep * nclasses ep, c, h, w]
             :: 'x error + tensor) = Inr qb \<longrightarrow>
          backbone T (backbone_training self) (backbone_params self) sb = Inr so \<longrightarrow>
          (view_rows so (support_size ep * nclasses ep) :: 'x error + tensor) = Inr se \<longrightarrow>
          backbone T (backbone_training self) (backbone_params self) qb = Inr qo \<longrightarrow>
          (view_rows qo (query_size ep * nclasses ep) :: 'x error + tensor) = Inr qe \<longrightarrow>
            hd (shape se) = length (support_relative_labels ep)
          \<and> hd (shape qe) = length (query_relative_labels ep)
          \<and> data se = data so
          \<and> data qe = data qo
          \<and> (\<forall>f rest.
                shape so = support_size ep * nclasses ep # rest \<longrightarrow>
                (\<forall>i<support_size ep * nclasses ep. row_at so i = f (row_at sb i)) \<longrightarrow>
                (\<forall>i<support_size ep * nclasses ep.
                   row_at se i = f (image_at (support_set ep) (i div nclasses ep)
                                      (nat (support_relative_labels ep ! i)))))
          \<and> (\<forall>f rest.
                shape qo = query_size ep * nclasses ep # rest \<longrightarrow>
                (\<forall>i<query_size ep * nclasses ep. row_at qo i = f (row_at qb i)) \<longrightarrow>
                (\<forall>i<query_size ep * nclasses ep.
                   row_at qe i = f (image_at (query_set ep) (i div nclasses ep)
                                      (nat (query_relative_labels ep ! i)))))
          \<and> val_episode (T :: ('p, 'o, 's, 'g, 'x) torch) self ep =
              bind_err (call (prototype_distance T se qe (support_relative_labels ep))) (\<lambda>the_logits.
              bind_err (call (cross_entropy T the_logits (query_relative_labels ep))) (\<lambda>the_loss.
              bind_err (call (max_index T the_logits)) (\<lambda>preds.
              bind_err (tensor_eq preds (query_relative_labels ep)) (\<lambda>m.
              Inr \<lparr>loss = the_loss, logits = the_logits, preds_match = m,
                   n_query = query_size ep * nclasses ep\<rparr>))))
          \<and> fst (train_episode T self ep) =
              bind_err (call (prototype_distance T se qe (support_relative_labels ep))) (\<lambda>the_logits.
              bind_err (call (cross_entropy T the_logits (query_relative_labels ep))) (\<lambda>the_loss.
              bind_err (call (backward T (backbone_training self) (backbone_params self) sb qb
                                (support_relative_labels ep) (query_relative_labels ep))) (\<lambda>grads.
              bind_err (call (optimizer_step T (optimizer self) (backbone_params self) grads)) (\<lambda>stepped.
              bind_err (call (max_index T the_logits)) (\<lambda>preds.
              bind_err (tensor_eq preds (query_relative_labels ep)) (\<lambda>m.
              Inr \<lparr>loss = the_loss, logits = the_logits, preds_match = m,
                   n_query = query_size ep * nclasses ep\<rparr>)))))))"
proof -
  have cnt: "\<forall>k<n. count_list (concat (replicate s (map int [0..<n]))) (int k) = s" for s n
    by (simp add: count_list_concat_replicate count_list_upt)
  have S: "support_relative_labels ep
             = concat (replicate (support_size ep) (map int [0..<nclasses ep]))"
    by (simp add: support_relative_labels_def relative_labels_unfold)
  have Q: "query_relative_labels ep
             = concat (replicate (query_size ep) (map int [0..<nclasses ep]))"
    by (simp add: query_relative_labels_def relative_labels_unfold)
  have lS: "length (support_relative_labels ep) = support_size ep * nclasses ep"
    and lQ: "length (query_relative_labels ep) = query_size ep * nclasses ep"
    by (simp_all add: S Q length_concat_replicate)
  from S cnt
  have cS: "\<forall>k<nclasses ep. count_list (support_relative_labels ep) (int k) = support_size ep"
    by simp
  from Q cnt
  have cQ: "\<forall>k<nclasses ep. count_list (query_relative_labels ep) (int k) = query_size ep"
    by simp
  note eS = labelled_rows [OF assms(1) S, where 'x = 'x]
  note eQ = labelled_rows [OF assms(2) Q, where 'x = 'x]
  have emb: "hd (shape se) = length (support_relative_labels ep)
      \<and> hd (shape qe) = length (query_relative_labels ep)
      \<and> data se = data so
      \<and> data qe = data qo
      \<and> (\<forall>f rest.
            shape so = support_size ep * nclasses ep # rest \<longrightarrow>
            (\<forall>i<support_size ep * nclasses ep. row_at so i = f (row_at sb i)) \<longrightarrow>
            (\<forall>i<support_size ep * nclasses ep.
               row_at se i = f (image_at (support_set ep) (i div nclasses ep)
                                  (nat (support_relative_labels ep ! i)))))
      \<and> (\<forall>f rest.
            shape qo = query_size ep * nclasses ep # rest \<longrightarrow>
            (\<forall>i<query_size ep * nclasses ep. row_at qo i = f (row_at qb i)) \<longrightarrow>
            (\<forall>i<query_size ep * nclasses ep.
               row_at qe i = f (image_at (query_set ep) (i div nclasses ep)
                                  (nat (query_relative_labels ep ! i)))))"
    if sb: "(view (support_set ep) [support_size ep * nclasses ep, c, h, w] :: 'x error + tensor) = Inr sb"
      and qb: "(view (query_set ep) [query_size ep * nclasses ep, c, h, w] :: 'x error + tensor) = Inr qb"
      and se: "(view_rows so (support_size ep * nclasses ep) :: 'x error + tensor) = Inr se"
      and qe: "(view_rows qo (query_size ep * nclasses ep) :: 'x error + tensor) = Inr qe"
    for sb qb so qo se qe
  proof -
    from eS sb have rs: "\<forall>i<support_size ep * nclasses ep.
          row_at sb i = image_at (support_set ep) (i div nclasses ep)
                          (nat (support_relative_labels ep ! i))"
      by simp
    from eQ qb have rq: "\<forall>i<query_size ep * nclasses ep.
          row_at qb i = image_at (query_set ep) (i div nclasses ep)
                          (nat (query_relative_labels ep ! i))"
      by simp
    have "row_at se i = f (image_at (support_set ep) (i div nclasses ep)
                              (nat (support_relative_labels ep ! i)))"
      if "shape so = support_size ep * nclasses ep # rest"
        and "\<forall>i<support_size ep * nclasses ep. row_at so i = f (row_at sb i)"
        and "i < support_size ep * nclasses ep" for f rest i
      using view_rows_row_at [OF se that(1), of i] that(2,3) rs by simp
    moreover have "row_at qe i = f (image_at (query_set ep) (i div nclasses ep)
                              (nat (query_relative_labels ep ! i)))"
      if "shape qo = query_size ep * nclasses ep # rest"
        and "\<forall>i<query_size ep * nclasses ep. row_at qo i = f (row_at qb i)"
        and "i < query_size ep * nclasses ep" for f rest i
      using view_rows_row_at [OF qe that(1), of i] that(2,3) rq by simp
    moreover have "hd (shape se) = length (support_relative_labels ep)"
      "hd (shape qe) = length (query_relative_labels ep)" "data se = data so" "data qe = data qo"
      using view_rows_Inr(1,2) [OF se] view_rows_Inr(1,2) [OF qe] by (simp_all add: lS lQ)
    ultimately show ?thesis by blast
  qed
  have body: "val_episode T self ep =
              bind_err (call (prototype_distance T se qe (support_relative_labels ep))) (\<lambda>the_logits.
              bind_err (call (cross_entropy T the_logits (query_relative_labels ep))) (\<lambda>the_loss.
              bind_err (call (max_index T the_logits)) (\<lambda>preds.
              bind_err (tensor_eq preds (query_relative_labels ep)) (\<lambda>m.
              Inr \<lparr>loss = the_loss, logits = the_logits, preds_match = m,
                   n_query = query_size ep * nclasses ep\<rparr>))))
          \<and> fst (train_episode T self ep) =
              bind_err (call (prototype_distance T se qe (support_relative_labels ep))) (\<lambda>the_logits.
              bind_err (call (cross_entropy T the_logits (query_relative_labels ep))) (\<lambda>the_loss.
              bind_err (call (backward T (backbone_training self) (backbone_params self) sb qb
                                (support_relative_labels ep) (query_relative_labels ep))) (\<lambda>grads.
              bind_err (call (optimizer_step T (optimizer self) (backbone_params self) grads)) (\<lambda>stepped.
              bind_err (call (max_index T the_logits)) (\<lambda>preds.
              bind_err (tensor_eq preds (query_relative_labels ep)) (\<lambda>m.
              Inr \<lparr>loss = the_loss, logits = the_logits, preds_match = m,
                   n_query = query_size ep * nclasses ep\<rparr>))))))"
    if "(view (support_set ep) [support_size ep * nclasses ep, c, h, w] :: 'x error + tensor) = Inr sb"
      and "(view (query_set ep) [query_size ep * nclasses ep, c, h, w] :: 'x error + tensor) = Inr qb"
      and "backbone T (backbone_training self) (backbone_params self) sb = Inr so"
      and "(view_rows so (support_size ep * nclasses ep) :: 'x error + tensor) = Inr se"
      and "backbone T (backbone_training self) (backbone_params self) qb = Inr qo"
      and "(view_rows qo (query_size ep * nclasses ep) :: 'x error + tensor) = Inr qe"
    for sb qb so qo se qe
    using val_episode_embedded [OF assms that] train_episode_embedded [OF assms that] by (rule conjI)
  show ?thesis
  proof (intro conjI allI impI)
    fix sb qb so qo se qe
    assume a: "(view (support_set ep) [support_size ep * nclasses ep, c, h, w] :: 'x error + tensor) = Inr sb"
      "(view (query_set ep) [query_size ep * nclasses ep, c, h, w] :: 'x error + tensor) = Inr qb"
      "backbone T (backbone_training self) (backbone_params self) sb = Inr so"
      "(view_rows so (support_size ep * nclasses ep) :: 'x error + tensor) = Inr se"
      "backbone T (backbone_training self) (backbone_params self) qb = Inr qo"
      "(view_rows qo (query_size ep * nclasses ep) :: 'x error + tensor) = Inr qe"
    note e = emb [OF a(1,2,4,6)]
    note b = body [OF a]
    from e show "hd (shape se) = length (support_relative_labels ep)" by (rule conjunct1)
    from e show "hd (shape qe) = length (query_relative_labels ep)" by blast
    from e show "data se = data so" by blast
    from e show "data qe = data qo" by blast
    from b show "val_episode T self ep =
              bind_err (call (prototype_distance T se qe (support_relative_labels ep))) (\<lambda>the_logits.
              bind_err (call (cross_entropy T the_logits (query_relative_labels ep))) (\<lambda>the_loss.
              bind_err (call (max_index T the_logits)) (\<lambda>preds.
              bind_err (tensor_eq preds (query_relative_labels ep)) (\<lambda>m.
              Inr \<lparr>loss = the_loss, logits = the_logits, preds_match = m,
                   n_query = query_size ep * nclasses ep\<rparr>))))"
      by (rule conjunct1)
    from b show "fst (train_episode T self ep) =
              bind_err (call (prototype_distance T se qe (support_relative_labels ep))) (\<lambda>the_logits.
              bind_err (call (cross_entropy T the_logits (query_relative_labels ep))) (\<lambda>the_loss.
              bind_err (call (backward T (backbone_training self) (backbone_params self) sb qb
                                (support_relative_labels ep) (query_relative_labels ep))) (\<lambda>grads.
              bind_err (call (optimizer_step T (optimizer self) (backbone_params self) grads)) (\<lambda>stepped.
              bind_err (call (max_index T the_logits)) (\<lambda>preds.
              bind_err (tensor_eq preds (query_relative_labels ep)) (\<lambda>m.
              Inr \<lparr>loss = the_loss, logits = the_logits, preds_match = m,
                   n_query = query_size ep * nclasses ep\<rparr>))))))"
      by (rule conjunct2)
    {
      fix f :: "real list \<Rightarrow> real list" and rest i
      assume "shape so = support_size ep * nclasses ep # rest"
        "\<forall>i<support_size ep * nclasses ep. row_at so i = f (row_at sb i)"
        "i < support_size ep * nclasses ep"
      with e show "row_at se i = f (image_at (support_set ep) (i div nclasses ep)
                                      (nat (support_relative_labels ep ! i)))"
        by blast
    }
    {
      fix f :: "real list \<Rightarrow> real list" and rest i
      assume "shape qo = query_size ep * nclasses ep # rest"
        "\<forall>i<query_size ep * nclasses ep. row_at qo i = f (row_at qb i)"
        "i < query_size ep * nclasses ep"
      with e show "row_at qe i = f (image_at (query_set ep) (i div nclasses ep)
                                      (nat (query_relative_labels ep ! i)))"
        by blast
    }
  qed (use S cS eS Q cQ eQ in blast)+
qed

theorem relative_labels_follow_rows_witness:
  "shape (support_set episode_b) = [support_size episode_b, nclasses episode_b, 1, 1, 1]
   \<and> shape (query_set episode_b) = [query_size episode_b, nclasses episode_b, 1, 1, 1]
   \<and> support_relative_labels episode_b = [0, 1]
   \<and> query_relative_labels episode_b = [0, 1, 0, 1]
   \<and> count_list (query_relative_labels episode_b) (int 1) = 2
   \<and> val_episode spy_classifier example_net episode_b
       = Inl (Raised (Classifier \<lparr>shape = [2, 1], data = [0, 1]\<rparr>
                                 \<lparr>shape = [4, 1], data = [1, 0, 0, 1]\<rparr> [0, 1]))
   \<and> fst (train_episode spy_classifier example_net episode_b)
       = Inl (Raised (Classifier \<lparr>shape = [2, 1], data = [0, 1]\<rparr>
                                 \<lparr>shape = [4, 1], data = [1, 0, 0, 1]\<rparr> [0, 1]))
   \<and> val_episode spy_loss example_net episode_b
       = Inl (Raised (Loss \<lparr>shape = [4, 1], data = [1, 0, 0, 1]\<rparr> [0, 1, 0, 1]))
   \<and> fst (train_episode spy_loss example_net episode_b)
       = Inl (Raised (Loss \<lparr>shape = [4, 1], data = [1, 0, 0, 1]\<rparr> [0, 1, 0, 1]))"
proof -
  have s: "shape (support_set episode_b) = [support_size episode_b, nclasses episode_b, 1, 1, 1]"
    and q: "shape (query_set episode_b) = [query_size episode_b, nclasses episode_b, 1, 1, 1]"
    by (simp_all add: episode_b_def)
  have n: "support_size episode_b = 1" "query_size episode_b = 2" "nclasses episode_b = 2"
    by (simp_all add: episode_b_def)
  have v: "concat (replicate 1 (map int [0..<2])) = [0, 1]"
    "concat (replicate 2 (map int [0..<2])) = [0, 1, 0, 1]"
    by (simp_all add: numeral_2_eq_2)
  have vs: "(view (support_set episode_b) [support_size episode_b * nclasses episode_b, 1, 1, 1]
              :: spied error + tensor) = Inr \<lparr>shape = [2, 1, 1, 1], data = [0, 1]\<rparr>"
    and vq: "(view (query_set episode_b) [query_size episode_b * nclasses episode_b, 1, 1, 1]
              :: spied error + tensor) = Inr \<lparr>shape = [4, 1, 1, 1], data = [1, 0, 0, 1]\<rparr>"
    by (simp_all add: episode_b_def view_def numel_def)
  have rs: "(view_rows \<lparr>shape = [2, 1, 1, 1], data = [0, 1]\<rparr>
               (support_size episode_b * nclasses episode_b) :: spied error + tensor)
             = Inr \<lparr>shape = [2, 1], data = [0, 1]\<rparr>"
    and rq: "(view_rows \<lparr>shape = [4, 1, 1, 1], data = [1, 0, 0, 1]\<rparr>
               (query_size episode_b * nclasses episode_b) :: spied error + tensor)
             = Inr \<lparr>shape = [4, 1], data = [1, 0, 0, 1]\<rparr>"
    by (simp_all add: n view_rows_def numel_def)
  have bc: "backbone spy_classifier (backbone_training example_net) (backbone_params example_net) x = Inr x"
    and bl: "backbone spy_loss (backbone_training example_net) (backbone_params example_net) x = Inr x"
    for x
    by (simp_all add: spy_classifier_def spy_loss_def)
  note t1 = relative_labels_follow_rows [OF s q, where T = spy_classifier and self = example_net]
  note t2 = relative_labels_follow_rows [OF s q, where T = spy_loss and self = example_net]
  note u1 = t1 [THEN conjunct2, THEN conjunct2, THEN conjunct2, THEN conjunct2, THEN conjunct2,
      THEN conjunct2, rule_format, OF vs vq bc rs bc rq]
  note u2 = t2 [THEN conjunct2, THEN conjunct2, THEN conjunct2, THEN conjunct2, THEN conjunct2,
      THEN conjunct2, rule_format, OF vs vq bl rs bl rq]
  from t1 have "support_relative_labels episode_b
      = concat (replicate (support_size episode_b) (map int [0..<nclasses episode_b]))"
    by (rule conjunct1)
  then have a: "support_relative_labels episode_b = [0, 1]"
    by (simp only: n v)
  from t1 [THEN conjunct2, THEN conjunct2, THEN conjunct2, THEN conjunct1]
  have b: "query_relative_labels episode_b = [0, 1, 0, 1]"
    by (simp only: n v)
  from t1 [THEN conjunct2, THEN conjunct2, THEN conjunct2, THEN conjunct2, THEN conjunct1,
      rule_format, of 1]
  have c: "count_list (query_relative_labels episode_b) (int 1) = 2"
    by (simp add: n)
  note e1 = u1 [THEN conjunct2, THEN conjunct2, THEN conjunct2, THEN conjunct2, THEN conjunct2,
      THEN conjunct2]
  note e2 = u2 [THEN conjunct2, THEN conjunct2, THEN conjunct2, THEN conjunct2, THEN conjunct2,
      THEN conjunct2]
  from e1 [THEN conjunct1]
  have d: "val_episode spy_classifier example_net episode_b
       = Inl (Raised (Classifier \<lparr>shape = [2, 1], data = [0, 1]\<rparr>
                                 \<lparr>shape = [4, 1], data = [1, 0, 0, 1]\<rparr> [0, 1]))"
    by (simp add: spy_classifier_def a)
  from e1 [THEN conjunct2]
  have e: "fst (train_episode spy_classifier example_net episode_b)
       = Inl (Raised (Classifier \<lparr>shape = [2, 1], data = [0, 1]\<rparr>
                                 \<lparr>shape = [4, 1], data = [1, 0, 0, 1]\<rparr> [0, 1]))"
    by (simp add: spy_classifier_def a)
  from e2 [THEN conjunct1]
  have f: "val_episode spy_loss example_net episode_b
       = Inl (Raised (Loss \<lparr>shape = [4, 1], data = [1, 0, 0, 1]\<rparr> [0, 1, 0, 1]))"
    by (simp add: spy_loss_def b)
  from e2 [THEN conjunct2]
  have g: "fst (train_episode spy_loss example_net episode_b)
       = Inl (Raised (Loss \<lparr>shape = [4, 1], data = [1, 0, 0, 1]\<rparr> [0, 1, 0, 1]))"
    by (simp add: spy_loss_def b)
  from s q a b c d e f g show ?thesis by simp
qed

section \<open>One episode\<close>

subsection \<open>Which exceptions an episode can raise\<close>

lemma size5_eq_Inl: "size5 t = Inl e \<Longrightarrow> e = ValueError"
  by (auto simp: size5_def split: list.splits)

lemma view_eq_Inl: "view t s = Inl e \<Longrightarrow> e = RuntimeError ''shape is invalid for input size''"
  by (auto simp: view_def split: if_splits)

lemma view_rows_eq_Inl:
  "view_rows t n = Inl e \<Longrightarrow>
     e = RuntimeError ''shape is invalid for input size'' \<or>
     e = RuntimeError ''cannot reshape tensor of 0 elements: the unspecified dimension size -1 is ambiguous''"
  by (auto simp: view_rows_def split: if_splits)

lemma tensor_eq_eq_Inl:
  "tensor_eq xs ys = Inl e \<Longrightarrow>
     e = RuntimeError ''The size of tensor a must match the size of tensor b''"
  by (auto simp: tensor_eq_def split: if_splits)

lemma torch_errorI:
  "size5 t = Inl e \<Longrightarrow> torch_error e"
  "view t s = Inl e \<Longrightarrow> torch_error e"
  "view_rows t n = Inl e \<Longrightarrow> torch_error e"
  "tensor_eq xs ys = Inl e \<Longrightarrow> torch_error e"
  "call r = Inl e \<Longrightarrow> torch_error e"
  using size5_eq_Inl view_eq_Inl view_rows_eq_Inl tensor_eq_eq_Inl
  by (fastforce simp: torch_error_def call_eq_Inl)+

lemma not_torch_error [simp]:
  "\<not> torch_error ZeroDivisionError"
  "\<not> torch_error dataset_too_small"
  "\<not> torch_error IndexError"
  by (simp_all add: torch_error_def dataset_too_small_def)

lemma dataset_too_small_neq [simp]:
  "dataset_too_small \<noteq> IndexError"
  "dataset_too_small \<noteq> ZeroDivisionError"
  "IndexError \<noteq> dataset_too_small"
  "ZeroDivisionError \<noteq> dataset_too_small"
  by (simp_all add: dataset_too_small_def)

lemma val_episode_Inl:
  assumes "val_episode T self ep = Inl e"
  shows "torch_error e \<or> e = dataset_too_small"
  using assms unfolding val_episode_def Let_def
  by (auto simp: bind_err_eq_Inl split: if_splits dest: torch_errorI)

lemma train_episode_Inl:
  assumes "fst (train_episode T self ep) = Inl e"
  shows "torch_error e"
  using assms unfolding train_episode_def Let_def
  by (auto simp: bind_err_eq_Inl split: sum.splits prod.splits dest: torch_errorI)

lemma train_episode_Inl_pair:
  "train_episode T self ep = (Inl e, self') \<Longrightarrow> torch_error e"
  by (rule train_episode_Inl [of T self ep]) simp

text \<open>An evaluation episode that returns has at least one query row.\<close>

lemma val_episode_n_query:
  assumes "val_episode T self ep = Inr r"
  shows "0 < n_query r"
  using assms unfolding val_episode_def Let_def
  by (auto simp: bind_err_eq_Inr view_rows_def split: if_splits)

subsection \<open>The shape check\<close>

lemma val_episode_mismatch:
  assumes "shape (support_set ep) = [ss, n0, c0, h0, w0]"
    and "shape (query_set ep) = [qs, n, c, h, w]"
    and "ss \<noteq> support_size ep \<or> qs \<noteq> query_size ep"
  shows "val_episode T self ep = Inl dataset_too_small"
  using assms unfolding val_episode_def by (auto simp: size5_def)

lemma val_episode_match:
  assumes "shape (support_set ep) = [support_size ep, n0, c0, h0, w0]"
    and "shape (query_set ep) = [query_size ep, n, c, h, w]"
  shows "val_episode T self ep \<noteq> Inl dataset_too_small"
proof
  assume "val_episode T self ep = Inl dataset_too_small"
  then show False
    unfolding val_episode_def Let_def using assms
    by (auto simp: bind_err_eq_Inl size5_def split: if_splits dest: torch_errorI)
qed

subsection \<open>The forward computation is the same\<close>

lemma same_forward:
  assumes B: "\<And>m p a b l1 l2. \<exists>g. backward T m p a b l1 l2 = Inr g"
    and O: "\<And>opt p g. \<exists>r. optimizer_step T opt p g = Inr r"
    and S: "shape (support_set ep) = [support_size ep, n0, c0, h0, w0]"
    and Q: "shape (query_set ep) = [query_size ep, n, c, h, w]"
  shows "fst (train_episode T self ep) = val_episode T self ep"
proof -
  have b: "call (backward T m p a b l1 l2) = Inr (projr (backward T m p a b l1 l2))"
    for m p a b l1 l2
    using B [of m p a b l1 l2] by auto
  have o: "call (optimizer_step T opt p g) = Inr (projr (optimizer_step T opt p g))"
    for opt p g
    using O [of opt p g] by auto
  show ?thesis
    unfolding train_episode_def val_episode_def Let_def
    by (simp add: S Q size5_def b o bind_err_def case_prod_unfold split: sum.splits)
qed

subsection \<open>The example episodes, evaluated\<close>

lemma example_labels:
  "support_relative_labels episode_a = [0, 1]"
  "query_relative_labels episode_a = [0, 1]"
  "support_relative_labels episode_b = [0, 1]"
  "query_relative_labels episode_b = [0, 1, 0, 1]"
  by (simp_all add: support_relative_labels_def query_relative_labels_def relative_labels_unfold
        episode_a_def episode_b_def numeral_2_eq_2)

lemma val_episode_a:
  "val_episode example_torch self episode_a =
     Inr \<lparr>loss = 1 / 2, logits = \<lparr>shape = [2, 1], data = [0, 1]\<rparr>,
          preds_match = [True, True], n_query = 2\<rparr>"
  unfolding val_episode_def Let_def example_labels
  by (simp add: episode_a_def example_torch_def size5_def view_def view_rows_def numel_def
        tensor_eq_def)

lemma val_episode_b:
  "val_episode example_torch self episode_b =
     Inr \<lparr>loss = 1 / 2, logits = \<lparr>shape = [4, 1], data = [1, 0, 0, 1]\<rparr>,
          preds_match = [False, False, True, True], n_query = 4\<rparr>"
  unfolding val_episode_def Let_def example_labels
  by (simp add: episode_b_def example_torch_def size5_def view_def view_rows_def numel_def
        tensor_eq_def)

lemma example_never_raises:
  "\<exists>g. backward example_torch m p a b l1 l2 = Inr g"
  "\<exists>r. optimizer_step example_torch opt p g = Inr r"
  by (simp_all add: example_torch_def)

lemma example_shapes:
  "shape (support_set episode_a) = [support_size episode_a, 2, 1, 1, 1]"
  "shape (query_set episode_a) = [query_size episode_a, 2, 1, 1, 1]"
  "shape (support_set episode_b) = [support_size episode_b, 2, 1, 1, 1]"
  "shape (query_set episode_b) = [query_size episode_b, 2, 1, 1, 1]"
  by (simp_all add: episode_a_def episode_b_def)

lemma train_episode_a:
  "fst (train_episode example_torch self episode_a) =
     Inr \<lparr>loss = 1 / 2, logits = \<lparr>shape = [2, 1], data = [0, 1]\<rparr>,
          preds_match = [True, True], n_query = 2\<rparr>"
  using same_forward [OF example_never_raises example_shapes(1, 2), of self]
  by (simp add: val_episode_a)

lemma train_episode_b:
  "fst (train_episode example_torch self episode_b) =
     Inr \<lparr>loss = 1 / 2, logits = \<lparr>shape = [4, 1], data = [1, 0, 0, 1]\<rparr>,
          preds_match = [False, False, True, True], n_query = 4\<rparr>"
  using same_forward [OF example_never_raises example_shapes(3, 4), of self]
  by (simp add: val_episode_b)

text \<open>
  C4. Two episodes with the same tensors and the same declared sizes, whatever their
  \<open>targets\<close>, give the same result in the training step (loss, logits, matches and the
  updated object) and in the evaluation step: the absolute labels do not interfere.
\<close>

theorem targets_do_not_interfere:
  assumes "support_set e1 = support_set e2" and "query_set e1 = query_set e2"
    and "nclasses e1 = nclasses e2" and "support_size e1 = support_size e2"
    and "query_size e1 = query_size e2"
  shows "train_episode T self e1 = train_episode T self e2
    \<and> val_episode T self e1 = val_episode T self e2"
proof -
  have L: "support_relative_labels e1 = support_relative_labels e2"
    "query_relative_labels e1 = query_relative_labels e2"
    by (simp_all add: support_relative_labels_def query_relative_labels_def assms)
  show ?thesis
    unfolding train_episode_def val_episode_def Let_def assms L by simp
qed

theorem targets_do_not_interfere_witness:
  "targets (episode_a\<lparr>targets := [4, 2]\<rparr>) \<noteq> targets episode_a
   \<and> train_episode example_torch example_net (episode_a\<lparr>targets := [4, 2]\<rparr>)
       = train_episode example_torch example_net episode_a
   \<and> val_episode example_torch example_net (episode_a\<lparr>targets := [4, 2]\<rparr>)
       = Inr \<lparr>loss = 1 / 2, logits = \<lparr>shape = [2, 1], data = [0, 1]\<rparr>,
              preds_match = [True, True], n_query = 2\<rparr>"
proof -
  have "targets (episode_a\<lparr>targets := [4, 2]\<rparr>) \<noteq> targets episode_a"
    by (simp add: episode_a_def)
  moreover note targets_do_not_interfere
    [of "episode_a\<lparr>targets := [4, 2]\<rparr>" episode_a example_torch example_net]
  ultimately show ?thesis by (simp add: val_episode_a)
qed

section \<open>One epoch\<close>

subsection \<open>The accumulators are the sums over the outcomes\<close>

lemma train_loop_complete:
  assumes "length (train_outcomes T loader self) = length loader"
  shows "fst (train_loop T loader self (l, a, n)) =
           Inr (l + sum_list (map loss (train_outcomes T loader self)),
                a + sum_list (map (\<lambda>r. float_mean T (preds_match r))
                                (train_outcomes T loader self)),
                n + length loader)"
  using assms
proof (induction loader arbitrary: self l a n)
  case Nil
  then show ?case by simp
next
  case (Cons batch loader)
  show ?case
  proof (cases batch)
    case Nil
    with Cons.prems show ?thesis by simp
  next
    case (Cons episode rest)
    obtain res self' where te: "train_episode T self episode = (res, self')"
      by (cases "train_episode T self episode")
    show ?thesis
    proof (cases res)
      case (Inl e)
      with te Cons Cons.prems show ?thesis by simp
    next
      case (Inr r)
      with te Cons Cons.prems have "length (train_outcomes T loader self') = length loader"
        by simp
      from Cons.IH [OF this] te Cons Inr show ?thesis
        by (simp add: algebra_simps)
    qed
  qed
qed

lemma train_loop_Inr:
  assumes "fst (train_loop T loader self acc) = Inr acc'"
  shows "length (train_outcomes T loader self) = length loader"
  using assms
proof (induction loader arbitrary: self acc)
  case Nil
  then show ?case by simp
next
  case (Cons batch loader)
  obtain l a n where acc: "acc = (l, a, n)" by (cases acc)
  from Cons.prems show ?case unfolding acc
    by (auto split: list.splits prod.splits sum.splits dest: Cons.IH)
qed

lemma train_loop_Inl:
  assumes "fst (train_loop T loader self acc) = Inl e"
  shows "torch_error e \<or> e = IndexError"
  using assms
proof (induction loader arbitrary: self acc)
  case Nil
  then show ?case by simp
next
  case (Cons batch loader)
  obtain l a n where acc: "acc = (l, a, n)" by (cases acc)
  from Cons.prems show ?case unfolding acc
    by (auto split: list.splits prod.splits sum.splits dest: Cons.IH train_episode_Inl_pair)
qed

lemma val_loop_complete:
  assumes "length (val_outcomes T loader self) = length loader"
  shows "val_loop T loader self (l, a, n) =
           Inr (l + sum_list (map (\<lambda>r. loss r * real (n_query r)) (val_outcomes T loader self)),
                a + sum_list (map (\<lambda>r. float_sum (preds_match r)) (val_outcomes T loader self)),
                n + sum_list (map n_query (val_outcomes T loader self)))"
  using assms
proof (induction loader arbitrary: l a n)
  case Nil
  then show ?case by simp
next
  case (Cons batch loader)
  show ?case
  proof (cases batch)
    case Nil
    with Cons.prems show ?thesis by simp
  next
    case (Cons episode rest)
    show ?thesis
    proof (cases "val_episode T self episode")
      case (Inl e)
      with Cons Cons.prems show ?thesis by simp
    next
      case (Inr r)
      with Cons Cons.prems have "length (val_outcomes T loader self) = length loader"
        by simp
      from Cons.IH [OF this] Cons Inr show ?thesis
        by (simp add: algebra_simps)
    qed
  qed
qed

lemma val_loop_Inr:
  assumes "val_loop T loader self acc = Inr acc'"
  shows "length (val_outcomes T loader self) = length loader"
  using assms
proof (induction loader arbitrary: acc)
  case Nil
  then show ?case by simp
next
  case (Cons batch loader)
  obtain l a n where acc: "acc = (l, a, n)" by (cases acc)
  from Cons.prems show ?case unfolding acc
    by (auto split: list.splits sum.splits dest: Cons.IH)
qed

lemma val_loop_Inl:
  assumes "val_loop T loader self acc = Inl e"
  shows "torch_error e \<or> e = IndexError \<or> e = dataset_too_small"
  using assms
proof (induction loader arbitrary: acc)
  case Nil
  then show ?case by simp
next
  case (Cons batch loader)
  obtain l a n where acc: "acc = (l, a, n)" by (cases acc)
  from Cons.prems show ?case unfolding acc
    by (auto split: list.splits sum.splits dest: Cons.IH val_episode_Inl)
qed

text \<open>The loop stops at the first episode that raises, with its exception.\<close>

lemma val_loop_reaches:
  assumes "length (val_outcomes T pre self) = length pre"
    and "val_episode T self ep = Inl e"
  shows "val_loop T (pre @ (ep # others) # post) self acc = Inl e"
  using assms(1)
proof (induction pre arbitrary: acc)
  case Nil
  obtain l a n where acc: "acc = (l, a, n)" by (cases acc)
  show ?case unfolding acc by (simp add: assms(2))
next
  case (Cons batch pre)
  obtain l a n where acc: "acc = (l, a, n)" by (cases acc)
  from Cons.prems show ?case unfolding acc
    by (auto split: list.splits sum.splits simp: Cons.IH)
qed

lemma val_outcomes_n_query: "r \<in> set (val_outcomes T loader self) \<Longrightarrow> 0 < n_query r"
  by (induction loader)
    (auto split: list.splits sum.splits dest: val_episode_n_query val_episode_n_query [OF sym])

lemma val_outcomes_total:
  "length (val_outcomes T loader self) \<le> sum_list (map n_query (val_outcomes T loader self))"
proof -
  have "length rs \<le> sum_list (map n_query rs)"
    if "\<And>r. r \<in> set rs \<Longrightarrow> 0 < n_query r" for rs :: "outcome list"
    using that
  proof (induction rs)
    case Nil
    then show ?case by simp
  next
    case (Cons r rs)
    from Cons.prems [of r] have "1 \<le> n_query r" by simp
    moreover have "length rs \<le> sum_list (map n_query rs)"
      by (rule Cons.IH) (simp add: Cons.prems)
    ultimately show ?case by simp
  qed
  then show ?thesis using val_outcomes_n_query by blast
qed

lemma val_total_positive:
  assumes "loader \<noteq> []" and "length (val_outcomes T loader self) = length loader"
  shows "sum_list (map n_query (val_outcomes T loader self)) \<noteq> 0"
proof -
  from assms have "0 < length (val_outcomes T loader self)" by simp
  with val_outcomes_total [of T loader self] show ?thesis by linarith
qed

subsection \<open>The example epoch, evaluated\<close>

lemma example_train_outcomes:
  "train_outcomes example_torch [[episode_a], [episode_b]] self =
     [\<lparr>loss = 1 / 2, logits = \<lparr>shape = [2, 1], data = [0, 1]\<rparr>,
       preds_match = [True, True], n_query = 2\<rparr>,
      \<lparr>loss = 1 / 2, logits = \<lparr>shape = [4, 1], data = [1, 0, 0, 1]\<rparr>,
       preds_match = [False, False, True, True], n_query = 4\<rparr>]"
proof -
  obtain s1 where a: "train_episode example_torch self episode_a =
     (Inr \<lparr>loss = 1 / 2, logits = \<lparr>shape = [2, 1], data = [0, 1]\<rparr>,
           preds_match = [True, True], n_query = 2\<rparr>, s1)"
    using train_episode_a [of self] by (cases "train_episode example_torch self episode_a") simp
  obtain s2 where b: "train_episode example_torch s1 episode_b =
     (Inr \<lparr>loss = 1 / 2, logits = \<lparr>shape = [4, 1], data = [1, 0, 0, 1]\<rparr>,
           preds_match = [False, False, True, True], n_query = 4\<rparr>, s2)"
    using train_episode_b [of s1] by (cases "train_episode example_torch s1 episode_b") simp
  show ?thesis by (simp add: a b)
qed

lemma example_val_outcomes:
  "val_outcomes example_torch [[episode_a], [episode_b]] self =
     [\<lparr>loss = 1 / 2, logits = \<lparr>shape = [2, 1], data = [0, 1]\<rparr>,
       preds_match = [True, True], n_query = 2\<rparr>,
      \<lparr>loss = 1 / 2, logits = \<lparr>shape = [4, 1], data = [1, 0, 0, 1]\<rparr>,
       preds_match = [False, False, True, True], n_query = 4\<rparr>]"
  by (simp add: val_episode_a val_episode_b)

lemma example_float_mean:
  "float_mean example_torch [True, True] = 1"
  "float_mean example_torch [False, False, True, True] = 1 / 2"
  by (simp_all add: example_torch_def float_sum_def)

lemma example_float_sum:
  "float_sum [True, True] = 2"
  "float_sum [False, False, True, True] = 2"
  by (simp_all add: float_sum_def)

text \<open>
  C6. With five-dimensional tensors whose first sizes are \<open>ss\<close> and \<open>qs\<close>: if \<open>ss\<close> differs
  from the declared \<open>support_size\<close> or \<open>qs\<close> from the declared \<open>query_size\<close>, the evaluation
  step raises the exception of line 98 (the \<open>RuntimeError\<close> "The dataset is too small
  ...", which the specification files under \<open>EpisodeShapeError\<close>), and so does
  \<open>val_on_loader\<close> on any loader that reaches this episode; if both agree, this exception
  is not raised. The training step and \<open>train_on_loader\<close> never raise it.
\<close>

theorem val_checks_episode_shape:
  assumes "shape (support_set ep) = [ss, n0, c0, h0, w0]"
    and "shape (query_set ep) = [qs, n, c, h, w]"
  shows "(ss \<noteq> support_size ep \<or> qs \<noteq> query_size ep \<longrightarrow>
            val_episode T self ep = Inl dataset_too_small
            \<and> (length (val_outcomes T pre (self\<lparr>backbone_training := False\<rparr>)) = length pre \<longrightarrow>
                 fst (val_on_loader T self (pre @ (ep # others) # post) mode)
                   = Inl dataset_too_small))
    \<and> (ss = support_size ep \<and> qs = query_size ep \<longrightarrow>
            val_episode T self ep \<noteq> Inl dataset_too_small)
    \<and> fst (train_episode T self ep) \<noteq> Inl dataset_too_small
    \<and> fst (train_on_loader T self loader) \<noteq> Inl dataset_too_small"
proof -
  have mismatch: "val_episode T self ep = Inl dataset_too_small"
    if "ss \<noteq> support_size ep \<or> qs \<noteq> query_size ep"
    using val_episode_mismatch [OF assms that] .
  have loader: "fst (val_on_loader T self (pre @ (ep # others) # post) mode) = Inl dataset_too_small"
    if "ss \<noteq> support_size ep \<or> qs \<noteq> query_size ep"
      and "length (val_outcomes T pre (self\<lparr>backbone_training := False\<rparr>)) = length pre"
    using val_loop_reaches [OF that(2) val_episode_mismatch [OF assms that(1)],
        of others post "(0, 0, 0)"]
    by (simp add: val_on_loader_def)
  have match: "val_episode T self ep \<noteq> Inl dataset_too_small"
    if "ss = support_size ep \<and> qs = query_size ep"
    using val_episode_match [of ep n0 c0 h0 w0 n c h w T self] assms that by simp
  have train: "fst (train_episode T self ep) \<noteq> Inl dataset_too_small"
    using train_episode_Inl [of T self ep dataset_too_small] by auto
  have "fst (train_on_loader T self loader) \<noteq> Inl dataset_too_small"
  proof
    assume a: "fst (train_on_loader T self loader) = Inl dataset_too_small"
    let ?s = "self\<lparr>backbone_training := True\<rparr>"
    obtain res s' where tl: "train_loop T loader ?s (0, 0, 0) = (res, s')"
      by (cases "train_loop T loader ?s (0, 0, 0)")
    show False
    proof (cases res)
      case (Inl e)
      with a tl have "e = dataset_too_small" by (simp add: train_on_loader_def)
      with Inl tl train_loop_Inl [of T loader ?s "(0, 0, 0)" e] show False
        by simp
    next
      case (Inr acc)
      with a tl show False
        by (auto simp: train_on_loader_def dataset_too_small_def split: prod.splits if_splits)
    qed
  qed
  with mismatch loader match train show ?thesis by blast
qed

theorem val_checks_episode_shape_witness:
  "val_episode example_torch example_net (episode_a\<lparr>support_size := 5\<rparr>) = Inl dataset_too_small
   \<and> fst (val_on_loader example_torch example_net
            [[episode_b], [episode_a\<lparr>support_size := 5\<rparr>]] ''val'') = Inl dataset_too_small
   \<and> val_episode example_torch example_net episode_a \<noteq> Inl dataset_too_small
   \<and> fst (train_episode example_torch example_net (episode_a\<lparr>support_size := 5\<rparr>))
        \<noteq> Inl dataset_too_small"
proof -
  let ?bad = "episode_a\<lparr>support_size := 5\<rparr>"
  have s: "shape (support_set ?bad) = [1, 2, 1, 1, 1]"
    and q: "shape (query_set ?bad) = [1, 2, 1, 1, 1]"
    and d: "1 \<noteq> support_size ?bad \<or> 1 \<noteq> query_size ?bad"
    by (simp_all add: episode_a_def)
  have pre: "length (val_outcomes example_torch [[episode_b]]
                (example_net\<lparr>backbone_training := False\<rparr>)) = length [[episode_b]]"
    by (simp add: val_episode_b)
  have sa: "shape (support_set episode_a) = [1, 2, 1, 1, 1]"
    and qa: "shape (query_set episode_a) = [1, 2, 1, 1, 1]"
    and ma: "1 = support_size episode_a \<and> 1 = query_size episode_a"
    by (simp_all add: episode_a_def)
  from val_checks_episode_shape [OF s q, of example_torch example_net "[[episode_b]]" "[]" "[]" "''val''"]
    d pre
  have "val_episode example_torch example_net ?bad = Inl dataset_too_small"
    and "fst (val_on_loader example_torch example_net [[episode_b], [?bad]] ''val'')
           = Inl dataset_too_small"
    and "fst (train_episode example_torch example_net ?bad) \<noteq> Inl dataset_too_small"
    by simp_all
  moreover from val_checks_episode_shape [OF sa qa, of example_torch example_net] ma
  have "val_episode example_torch example_net episode_a \<noteq> Inl dataset_too_small"
    by blast
  ultimately show ?thesis by simp
qed



text \<open>
  C10. On a loader that yields nothing both epoch functions raise \<open>ZeroDivisionError\<close>
  instead of returning metrics. On a loader that yields at least one batch neither does:
  the divisor is the number of episodes in training, and in evaluation the sum of the
  \<open>qs * nclasses\<close>, each of which is positive once its episode has passed the views.
\<close>

theorem empty_loader_divides_by_zero:
  "fst (train_on_loader T self []) = Inl ZeroDivisionError
   \<and> fst (val_on_loader T self [] mode) = Inl ZeroDivisionError
   \<and> (loader \<noteq> [] \<longrightarrow>
        fst (train_on_loader T self loader) \<noteq> Inl ZeroDivisionError
        \<and> fst (val_on_loader T self loader mode) \<noteq> Inl ZeroDivisionError)"
proof -
  have empty: "fst (train_on_loader T self []) = Inl ZeroDivisionError"
    "fst (val_on_loader T self [] mode) = Inl ZeroDivisionError"
    by (simp_all add: train_on_loader_def val_on_loader_def)
  have train: "fst (train_on_loader T self loader) \<noteq> Inl ZeroDivisionError" if ne: "loader \<noteq> []"
  proof -
    let ?s = "self\<lparr>backbone_training := True\<rparr>"
    obtain res self' where tl: "train_loop T loader ?s (0, 0, 0) = (res, self')"
      by (cases "train_loop T loader ?s (0, 0, 0)")
    show ?thesis
    proof (cases res)
      case (Inl e)
      with tl train_loop_Inl [of T loader ?s "(0, 0, 0)" e] show ?thesis
        by (auto simp: train_on_loader_def)
    next
      case (Inr acc)
      with tl have "length (train_outcomes T loader ?s) = length loader"
        using train_loop_Inr [of T loader ?s "(0, 0, 0)" acc] by simp
      from train_loop_complete [OF this, of 0 0 0] tl ne show ?thesis
        by (simp add: train_on_loader_def)
    qed
  qed
  have val: "fst (val_on_loader T self loader mode) \<noteq> Inl ZeroDivisionError" if ne: "loader \<noteq> []"
  proof -
    let ?s = "self\<lparr>backbone_training := False\<rparr>"
    show ?thesis
    proof (cases "val_loop T loader ?s (0, 0, 0)")
      case (Inl e)
      with val_loop_Inl [of T loader ?s "(0, 0, 0)" e] show ?thesis
        by (auto simp: val_on_loader_def)
    next
      case (Inr acc)
      then have len: "length (val_outcomes T loader ?s) = length loader"
        using val_loop_Inr by blast
      from val_loop_complete [OF len, of 0 0 0] val_total_positive [OF ne len]
      obtain l a n where "val_loop T loader ?s (0, 0, 0) = Inr (l, a, n)" "n \<noteq> 0"
        by simp
      then show ?thesis
        by (auto simp: val_on_loader_def Let_def call_eq_Inl split: sum.splits)
    qed
  qed
  from empty train val show ?thesis by blast
qed

theorem empty_loader_divides_by_zero_witness:
  "[[episode_a]] \<noteq> []
   \<and> fst (train_on_loader example_torch example_net []) = Inl ZeroDivisionError
   \<and> fst (val_on_loader example_torch example_net [] ''val'') = Inl ZeroDivisionError
   \<and> fst (train_on_loader example_torch example_net [[episode_a]]) \<noteq> Inl ZeroDivisionError
   \<and> fst (val_on_loader example_torch example_net [[episode_a]] ''val'') \<noteq> Inl ZeroDivisionError"
  using empty_loader_divides_by_zero [of example_torch example_net "''val''" "[[episode_a]]"]
  by simp

text \<open>
  C2, as the code has it. On a non-empty loader all of whose episodes go through:
  \<open>train_on_loader\<close> returns as \<open>train_loss\<close> the arithmetic mean of the episodes' losses and
  as \<open>train_accuracy\<close> one hundred times the arithmetic mean of the episodes' mean
  accuracies, each episode counting once; \<open>val_on_loader\<close> (when the scheduler's step does
  not raise) returns as loss the sum of the episodes' losses, each multiplied by its
  number of query rows, divided by the total number of query rows, and as accuracy one
  hundred times the number of right predictions divided by the total number of query
  rows. Both accuracies are percentages.
\<close>

theorem epoch_metrics_aggregation:
  assumes "loader \<noteq> []"
  shows "(length (train_outcomes T loader (self\<lparr>backbone_training := True\<rparr>)) = length loader \<longrightarrow>
            fst (train_on_loader T self loader) =
              Inr [(''train_loss'',
                     arith_mean (map loss
                       (train_outcomes T loader (self\<lparr>backbone_training := True\<rparr>)))),
                   (''train_accuracy'',
                     100 * arith_mean (map (episode_accuracy T)
                       (train_outcomes T loader (self\<lparr>backbone_training := True\<rparr>))))])
    \<and> (length (val_outcomes T loader (self\<lparr>backbone_training := False\<rparr>)) = length loader \<longrightarrow>
         scheduler_step T (scheduler self) (optimizer self)
           (sum_list (map episode_weighted_loss
               (val_outcomes T loader (self\<lparr>backbone_training := False\<rparr>)))
             / real (sum_list (map n_query
               (val_outcomes T loader (self\<lparr>backbone_training := False\<rparr>))))) = Inr so \<longrightarrow>
            fst (val_on_loader T self loader mode) =
              Inr [(mode @ ''_loss'',
                     sum_list (map episode_weighted_loss
                         (val_outcomes T loader (self\<lparr>backbone_training := False\<rparr>)))
                       / real (sum_list (map n_query
                           (val_outcomes T loader (self\<lparr>backbone_training := False\<rparr>))))),
                   (mode @ ''_accuracy'',
                     100 * (sum_list (map episode_correct
                         (val_outcomes T loader (self\<lparr>backbone_training := False\<rparr>)))
                       / real (sum_list (map n_query
                           (val_outcomes T loader (self\<lparr>backbone_training := False\<rparr>))))))])"
proof -
  let ?st = "self\<lparr>backbone_training := True\<rparr>"
  let ?sv = "self\<lparr>backbone_training := False\<rparr>"
  have train: "fst (train_on_loader T self loader) =
      Inr [(''train_loss'', arith_mean (map loss (train_outcomes T loader ?st))),
           (''train_accuracy'',
             100 * arith_mean (map (episode_accuracy T) (train_outcomes T loader ?st)))]"
    if len: "length (train_outcomes T loader ?st) = length loader"
  proof -
    obtain res s' where tl: "train_loop T loader ?st (0, 0, 0) = (res, s')"
      by (cases "train_loop T loader ?st (0, 0, 0)")
    have e: "(\<lambda>r. float_mean T (preds_match r)) = episode_accuracy T"
      by (simp add: episode_accuracy_def fun_eq_iff)
    from train_loop_complete [OF len, of 0 0 0] tl assms len show ?thesis
      by (simp add: train_on_loader_def arith_mean_def e)
  qed
  have val: "fst (val_on_loader T self loader mode) =
      Inr [(mode @ ''_loss'',
             sum_list (map episode_weighted_loss (val_outcomes T loader ?sv))
               / real (sum_list (map n_query (val_outcomes T loader ?sv)))),
           (mode @ ''_accuracy'',
             100 * (sum_list (map episode_correct (val_outcomes T loader ?sv))
               / real (sum_list (map n_query (val_outcomes T loader ?sv)))))]"
    if len: "length (val_outcomes T loader ?sv) = length loader"
      and sched: "scheduler_step T (scheduler self) (optimizer self)
           (sum_list (map episode_weighted_loss (val_outcomes T loader ?sv))
             / real (sum_list (map n_query (val_outcomes T loader ?sv)))) = Inr so"
  proof -
    have e: "(\<lambda>r. loss r * real (n_query r)) = episode_weighted_loss"
      "(\<lambda>r. float_sum (preds_match r)) = episode_correct"
      by (simp_all add: episode_weighted_loss_def episode_correct_def fun_eq_iff)
    obtain s' o' where so: "so = (s', o')" by (cases so)
    define L where "L = sum_list (map episode_weighted_loss (val_outcomes T loader ?sv))"
    define A where "A = sum_list (map episode_correct (val_outcomes T loader ?sv))"
    define N where "N = sum_list (map n_query (val_outcomes T loader ?sv))"
    have vl: "val_loop T loader ?sv (0, 0, 0) = Inr (L, A, N)"
      using val_loop_complete [OF len, of 0 0 0] by (simp add: e L_def A_def N_def)
    have n: "N \<noteq> 0"
      unfolding N_def by (rule val_total_positive [OF assms len])
    have sc: "scheduler_step T (scheduler self) (optimizer self) (L / real N) = Inr (s', o')"
      using sched by (simp only: L_def N_def so)
    have "fst (val_on_loader T self loader mode) =
        Inr [(mode @ ''_loss'', L / real N), (mode @ ''_accuracy'', 100 * (A / real N))]"
      by (simp add: val_on_loader_def vl n sc)
    then show ?thesis by (simp only: L_def A_def N_def)
  qed
  from train val show ?thesis by blast
qed

lemma example_epoch_values:
  "arith_mean (map loss (train_outcomes example_torch [[episode_a], [episode_b]] self)) = 1 / 2"
  "arith_mean (map (episode_accuracy example_torch)
     (train_outcomes example_torch [[episode_a], [episode_b]] self)) = 3 / 4"
  "sum_list (map episode_weighted_loss
     (val_outcomes example_torch [[episode_a], [episode_b]] self)) = 3"
  "sum_list (map episode_correct
     (val_outcomes example_torch [[episode_a], [episode_b]] self)) = 4"
  "sum_list (map n_query (val_outcomes example_torch [[episode_a], [episode_b]] self)) = 6"
  unfolding example_train_outcomes example_val_outcomes
  by (simp_all add: arith_mean_def
        episode_accuracy_def episode_correct_def episode_weighted_loss_def
        example_float_mean example_float_sum)

theorem epoch_metrics_aggregation_witness:
  "[[episode_a], [episode_b]] \<noteq> []
   \<and> fst (train_on_loader example_torch example_net [[episode_a], [episode_b]])
       = Inr [(''train_loss'', 1 / 2), (''train_accuracy'', 75)]
   \<and> fst (val_on_loader example_torch example_net [[episode_a], [episode_b]] ''val'')
       = Inr [(''val_loss'', 1 / 2), (''val_accuracy'', 200 / 3)]"
proof -
  have ne: "[[episode_a], [episode_b]] \<noteq> ([] :: episode list list)" by simp
  have lt: "length (train_outcomes example_torch [[episode_a], [episode_b]]
                (example_net\<lparr>backbone_training := True\<rparr>)) = length [[episode_a], [episode_b]]"
    unfolding example_train_outcomes by simp
  have lv: "length (val_outcomes example_torch [[episode_a], [episode_b]]
                (example_net\<lparr>backbone_training := False\<rparr>)) = length [[episode_a], [episode_b]]"
    unfolding example_val_outcomes by simp
  have sc: "scheduler_step example_torch (scheduler example_net) (optimizer example_net)
              (3 / real 6) = Inr (1, 0)"
    by (simp add: example_torch_def example_net_def)
  note t = epoch_metrics_aggregation [OF ne, of example_torch example_net "(1, 0)" "''val''"]
  from t lt have "fst (train_on_loader example_torch example_net [[episode_a], [episode_b]])
       = Inr [(''train_loss'', 1 / 2), (''train_accuracy'', 75)]"
    by (simp add: example_epoch_values del: train_outcomes.simps val_outcomes.simps)
  moreover from t lv sc
  have "fst (val_on_loader example_torch example_net [[episode_a], [episode_b]] ''val'')
       = Inr [(''val_loss'', 1 / 2), (''val_accuracy'', 200 / 3)]"
    by (simp add: example_epoch_values del: train_outcomes.simps val_outcomes.simps)
  ultimately show ?thesis by simp
qed

text \<open>
  The claim without the factor: in the example epoch the returned \<open>train_accuracy\<close> is 75,
  while the arithmetic mean of the two episodes' mean accuracies (1 and 1/2) is 3/4; the
  returned \<open>val_accuracy\<close> is 200/3, while 4 right predictions over 6 query rows are 2/3.
\<close>

theorem epoch_metrics_aggregation_counterexample:
  "map_of (projr (fst (train_on_loader example_torch example_net [[episode_a], [episode_b]])))
       ''train_accuracy''
     \<noteq> Some (arith_mean (map (episode_accuracy example_torch)
          (train_outcomes example_torch [[episode_a], [episode_b]]
             (example_net\<lparr>backbone_training := True\<rparr>))))
   \<and> map_of (projr (fst (val_on_loader example_torch example_net
          [[episode_a], [episode_b]] ''val''))) ''val_accuracy''
     \<noteq> Some (sum_list (map episode_correct
            (val_outcomes example_torch [[episode_a], [episode_b]]
               (example_net\<lparr>backbone_training := False\<rparr>)))
          / real (sum_list (map n_query
            (val_outcomes example_torch [[episode_a], [episode_b]]
               (example_net\<lparr>backbone_training := False\<rparr>)))))"
proof -
  have tl: "train_loop example_torch [[episode_a], [episode_b]]
               (example_net\<lparr>backbone_training := True\<rparr>) (0, 0, 0)
             = (Inr (1, 3 / 2, 2), snd (train_loop example_torch [[episode_a], [episode_b]]
               (example_net\<lparr>backbone_training := True\<rparr>) (0, 0, 0)))"
    using train_loop_complete [of example_torch "[[episode_a], [episode_b]]"
        "example_net\<lparr>backbone_training := True\<rparr>" 0 0 0]
    unfolding example_train_outcomes by (simp add: example_float_mean prod_eq_iff)
  have train: "fst (train_on_loader example_torch example_net [[episode_a], [episode_b]])
       = Inr [(''train_loss'', 1 / 2), (''train_accuracy'', 75)]"
    unfolding train_on_loader_def by (subst tl) simp
  have vl: "val_loop example_torch [[episode_a], [episode_b]]
               (example_net\<lparr>backbone_training := False\<rparr>) (0, 0, 0) = Inr (3, 4, 6)"
    by (simp add: val_episode_a val_episode_b example_float_sum)
  have val: "fst (val_on_loader example_torch example_net [[episode_a], [episode_b]] ''val'')
       = Inr [(''val_loss'', 1 / 2), (''val_accuracy'', 200 / 3)]"
    unfolding val_on_loader_def Let_def vl
    by (simp add: example_torch_def example_net_def)
  show ?thesis
    by (simp add: train val example_epoch_values del: train_outcomes.simps val_outcomes.simps)
qed

section \<open>The backbone factory\<close>

lemma lower_names [simp]:
  "lower ''ResNet18'' = ''resnet18''"
  "lower ''resnet18'' = ''resnet18''"
  "lower ''resnet50'' = ''resnet50''"
  "lower ''VGG16'' = ''vgg16''"
  "lower ''conv4'' = ''conv4''"
  by (simp_all add: lower_def lower_char_def)

lemma getitem_simps [simp]:
  "getitem None = Inl KeyError"
  "getitem (Some a) = Inr a"
  by (simp_all add: getitem_def)

text \<open>
  C5. The strides of \<open>Conv4\<close> are chosen from \<open>ratio = min(height, width) // 4\<close> exactly as
  listed, that is by whether the smaller side is at least 64, 32, 16 or 8; the four
  convolutions are built with these strides; and the factory passes the height and the
  width of the dataset to \<open>Conv4\<close>.
\<close>

theorem conv4_strides_by_ratio:
  "strides (Conv4 in_h in_w in_channels output_size use_gap) =
     (let ratio = min in_h in_w div 4 in
      if ratio \<ge> 16 then [2, 2, 2, 2]
      else if ratio \<ge> 8 then [1, 2, 2, 2]
      else if ratio \<ge> 4 then [1, 2, 2, 1]
      else if ratio \<ge> 2 then [1, 2, 1, 1]
      else [1, 1, 1, 1])
   \<and> strides (Conv4 in_h in_w in_channels output_size use_gap) =
     (if min in_h in_w \<ge> 64 then [2, 2, 2, 2]
      else if min in_h in_w \<ge> 32 then [1, 2, 2, 2]
      else if min in_h in_w \<ge> 16 then [1, 2, 2, 1]
      else if min in_h in_w \<ge> 8 then [1, 2, 1, 1]
      else [1, 1, 1, 1])
   \<and> conv_strides (conv4_modules (Conv4 in_h in_w in_channels output_size use_gap)) =
     map (\<lambda>s. (s, s)) (strides (Conv4 in_h in_w in_channels output_size use_gap))
   \<and> (get_backbone models
         (cfg\<lparr>backbone_name := ''conv4'', backbone_gap := Some use_gap\<rparr>) :: 'x error + network) =
       Inr (Conv4Net (Conv4 (dataset_height cfg) (dataset_width cfg) (dataset_channels cfg)
                        (num_classes cfg) use_gap))"
proof -
  have a: "strides (Conv4 in_h in_w in_channels output_size use_gap) =
     (let ratio = min in_h in_w div 4 in
      if ratio \<ge> 16 then [2, 2, 2, 2]
      else if ratio \<ge> 8 then [1, 2, 2, 2]
      else if ratio \<ge> 4 then [1, 2, 2, 1]
      else if ratio \<ge> 2 then [1, 2, 1, 1]
      else [1, 1, 1, 1])"
    by (simp add: Conv4_def Let_def min.commute)
  have b: "strides (Conv4 in_h in_w in_channels output_size use_gap) =
     (if min in_h in_w \<ge> 64 then [2, 2, 2, 2]
      else if min in_h in_w \<ge> 32 then [1, 2, 2, 2]
      else if min in_h in_w \<ge> 16 then [1, 2, 2, 1]
      else if min in_h in_w \<ge> 8 then [1, 2, 1, 1]
      else [1, 1, 1, 1])"
  proof -
    have d: "(k \<le> m div 4) = (4 * k \<le> m)" for k m :: int
      by presburger
    show ?thesis unfolding a Let_def d by simp
  qed
  have up: "[0..<4] = [0, 1, 2, 3]"
    by (simp add: upt_rec)
  have c: "conv_strides (conv4_modules (Conv4 in_h in_w in_channels output_size use_gap)) =
     map (\<lambda>s. (s, s)) (strides (Conv4 in_h in_w in_channels output_size use_gap))"
    by (simp add: Conv4_def Let_def up)
  have g: "(get_backbone models
         (cfg\<lparr>backbone_name := ''conv4'', backbone_gap := Some use_gap\<rparr>) :: 'x error + network) =
       Inr (Conv4Net (Conv4 (dataset_height cfg) (dataset_width cfg) (dataset_channels cfg)
                        (num_classes cfg) use_gap))"
    by (simp add: get_backbone_def)
  from a b c g show ?thesis by blast
qed

theorem conv4_strides_by_ratio_witness:
  "strides (Conv4 32 32 3 10 True) = [1, 2, 2, 2]
   \<and> strides (Conv4 64 100 3 10 True) = [2, 2, 2, 2]
   \<and> strides (Conv4 7 100 3 10 True) = [1, 1, 1, 1]
   \<and> conv_strides (conv4_modules (Conv4 32 32 3 10 True)) = [(1, 1), (2, 2), (2, 2), (2, 2)]"
  using conv4_strides_by_ratio [of 32 32 3 10 True example_library example_exp, where 'x = unit]
    conv4_strides_by_ratio [of 64 100 3 10 True example_library example_exp, where 'x = unit]
    conv4_strides_by_ratio [of 7 100 3 10 True example_library example_exp, where 'x = unit]
  by simp

lemma example_in_features:
  "(in_features (resnet18 example_library p) ''fc'' :: 'x error + int) = Inr 512"
  "(in_features (resnet50 example_library p) ''fc'' :: 'x error + int) = Inr 2048"
  by (simp_all add: example_library_def resnet_outline_def in_features_def)

text \<open>
  C7, as the code has it. For \<open>resnet18\<close>, \<open>resnet50\<close> and \<open>vgg16\<close>, with the pretraining option
  \<open>p\<close>: if the channel count is not 3 and \<open>p\<close> is set, the factory fails (the
  \<open>AssertionError\<close> of the \<open>assert\<close>, which the specification files under
  \<open>ConfigurationError\<close>); if the channel count is not 3 and \<open>p\<close> is not set, the first
  convolution is replaced by a fresh one with that many input channels; if the channel
  count is 3, the first convolution stays the library's. The head is replaced in every
  case: \<open>fc\<close> by a fresh linear layer to \<open>num_classes\<close> in the residual networks, the
  pooling and the classifier by a new head in \<open>vgg16\<close>. Every other submodule is the
  library's.
\<close>

theorem first_convolution_by_channels:
  assumes "backbone_imagenet_pretraining cfg = Some p"
  shows "(lower (backbone_name cfg) = ''resnet18'' \<longrightarrow>
            (in_features (resnet18 models p) ''fc'' :: 'x error + int) = Inr f \<longrightarrow>
            (get_backbone models cfg :: 'x error + network) =
              (if dataset_channels cfg \<noteq> 3 then
                 (if p then Inl AssertionError
                  else Inr (ResNet (AList.update ''conv1''
                         (Conv2d (dataset_channels cfg) 64 (7, 7) (2, 2) (3, 3) False)
                         (AList.update ''fc'' (Linear f (num_classes cfg)) (resnet18 models p)))))
               else Inr (ResNet (AList.update ''fc'' (Linear f (num_classes cfg))
                                   (resnet18 models p)))))
    \<and> (lower (backbone_name cfg) = ''resnet50'' \<longrightarrow>
            (in_features (resnet50 models p) ''fc'' :: 'x error + int) = Inr f \<longrightarrow>
            (get_backbone models cfg :: 'x error + network) =
              (if dataset_channels cfg \<noteq> 3 then
                 (if p then Inl AssertionError
                  else Inr (ResNet (AList.update ''conv1''
                         (Conv2d (dataset_channels cfg) 64 (7, 7) (2, 2) (3, 3) False)
                         (AList.update ''fc'' (Linear f (num_classes cfg)) (resnet50 models p)))))
               else Inr (ResNet (AList.update ''fc'' (Linear f (num_classes cfg))
                                   (resnet50 models p)))))
    \<and> (lower (backbone_name cfg) = ''vgg16'' \<longrightarrow>
            vgg16_bn models p
              = [(''features'', Torchvision p (Sequential (l0 # ls))), avgpool, classifier] \<longrightarrow>
            (get_backbone models cfg :: 'x error + network) =
              (if dataset_channels cfg \<noteq> 3 then
                 (if p then Inl AssertionError
                  else Inr (SequentialNet
                         [Torchvision p (Sequential
                            (Conv2d (dataset_channels cfg) 64 (3, 3) (1, 1) (1, 1) True # ls)),
                          vgg_head (num_classes cfg)]))
               else Inr (SequentialNet
                      [Torchvision p (Sequential (l0 # ls)), vgg_head (num_classes cfg)])))
    \<and> (k \<noteq> ''conv1'' \<longrightarrow> k \<noteq> ''fc'' \<longrightarrow>
          map_of (AList.update ''conv1'' c (AList.update ''fc'' l ms)) k = map_of ms k)"
proof -
  have r18: "(get_backbone models cfg :: 'x error + network) =
              (if dataset_channels cfg \<noteq> 3 then
                 (if p then Inl AssertionError
                  else Inr (ResNet (AList.update ''conv1''
                         (Conv2d (dataset_channels cfg) 64 (7, 7) (2, 2) (3, 3) False)
                         (AList.update ''fc'' (Linear f (num_classes cfg)) (resnet18 models p)))))
               else Inr (ResNet (AList.update ''fc'' (Linear f (num_classes cfg))
                                   (resnet18 models p))))"
    if "lower (backbone_name cfg) = ''resnet18''"
      and "(in_features (resnet18 models p) ''fc'' :: 'x error + int) = Inr f"
    using that assms by (simp add: get_backbone_def Let_def)
  have r50: "(get_backbone models cfg :: 'x error + network) =
              (if dataset_channels cfg \<noteq> 3 then
                 (if p then Inl AssertionError
                  else Inr (ResNet (AList.update ''conv1''
                         (Conv2d (dataset_channels cfg) 64 (7, 7) (2, 2) (3, 3) False)
                         (AList.update ''fc'' (Linear f (num_classes cfg)) (resnet50 models p)))))
               else Inr (ResNet (AList.update ''fc'' (Linear f (num_classes cfg))
                                   (resnet50 models p))))"
    if "lower (backbone_name cfg) = ''resnet50''"
      and "(in_features (resnet50 models p) ''fc'' :: 'x error + int) = Inr f"
    using that assms by (simp add: get_backbone_def Let_def)
  have vgg: "(get_backbone models cfg :: 'x error + network) =
              (if dataset_channels cfg \<noteq> 3 then
                 (if p then Inl AssertionError
                  else Inr (SequentialNet
                         [Torchvision p (Sequential
                            (Conv2d (dataset_channels cfg) 64 (3, 3) (1, 1) (1, 1) True # ls)),
                          vgg_head (num_classes cfg)]))
               else Inr (SequentialNet
                      [Torchvision p (Sequential (l0 # ls)), vgg_head (num_classes cfg)]))"
    if "lower (backbone_name cfg) = ''vgg16''"
      and "vgg16_bn models p
              = [(''features'', Torchvision p (Sequential (l0 # ls))), avgpool, classifier]"
  proof -
    obtain n1 l1 n2 l2 where ac: "avgpool = (n1, l1)" "classifier = (n2, l2)"
      by (cases avgpool, cases classifier) auto
    show ?thesis
      using that assms unfolding ac
      by (cases p) (simp_all add: get_backbone_def Let_def set_first_def vgg_head_def)
  qed
  have rest: "map_of (AList.update ''conv1'' c (AList.update ''fc'' l ms)) k = map_of ms k"
    if "k \<noteq> ''conv1''" "k \<noteq> ''fc''"
    using that by (simp add: update_conv')
  from r18 r50 vgg rest show ?thesis by blast
qed

theorem first_convolution_by_channels_witness:
  "(get_backbone example_library
       (example_exp\<lparr>dataset_channels := 1, backbone_imagenet_pretraining := Some True\<rparr>)
      :: unit error + network) = Inl AssertionError
   \<and> (get_backbone example_library (example_exp\<lparr>dataset_channels := 1\<rparr>)
      :: unit error + network)
       = Inr (ResNet (AList.update ''conv1'' (Conv2d 1 64 (7, 7) (2, 2) (3, 3) False)
                (AList.update ''fc'' (Linear 512 10) (resnet18 example_library False))))
   \<and> (get_backbone example_library example_exp :: unit error + network)
       = Inr (ResNet (AList.update ''fc'' (Linear 512 10) (resnet18 example_library False)))"
proof -
  let ?c1t = "example_exp\<lparr>dataset_channels := 1, backbone_imagenet_pretraining := Some True\<rparr>"
  let ?c1 = "example_exp\<lparr>dataset_channels := 1\<rparr>"
  have p1t: "backbone_imagenet_pretraining ?c1t = Some True"
    and p1: "backbone_imagenet_pretraining ?c1 = Some False"
    and p3: "backbone_imagenet_pretraining example_exp = Some False"
    by (simp_all add: example_exp_def)
  have n: "lower (backbone_name ?c1t) = ''resnet18''" "lower (backbone_name ?c1) = ''resnet18''"
    "lower (backbone_name example_exp) = ''resnet18''"
    by (simp_all add: example_exp_def)
  have v: "dataset_channels ?c1t = 1" "dataset_channels ?c1 = 1" "dataset_channels example_exp = 3"
    "num_classes ?c1 = 10" "num_classes example_exp = 10"
    by (simp_all add: example_exp_def)
  from first_convolution_by_channels [OF p1t, where 'x = unit and models = example_library
      and f = 512 and k = "''bn1''" and c = GAP and l = GAP and ms = "[]"
      and ?l0.0 = GAP and ls = "[]" and avgpool = "(''a'', GAP)" and classifier = "(''c'', GAP)"] n(1) example_in_features(1) [of True, where 'x = unit]
  have "(get_backbone example_library ?c1t :: unit error + network) = Inl AssertionError"
    by (simp add: v)
  moreover
  from first_convolution_by_channels [OF p1, where 'x = unit and models = example_library
      and f = 512 and k = "''bn1''" and c = GAP and l = GAP and ms = "[]"
      and ?l0.0 = GAP and ls = "[]" and avgpool = "(''a'', GAP)" and classifier = "(''c'', GAP)"] n(2) example_in_features(1) [of False, where 'x = unit]
  have "(get_backbone example_library ?c1 :: unit error + network)
       = Inr (ResNet (AList.update ''conv1'' (Conv2d 1 64 (7, 7) (2, 2) (3, 3) False)
                (AList.update ''fc'' (Linear 512 10) (resnet18 example_library False))))"
    by (simp add: v)
  moreover
  from first_convolution_by_channels [OF p3, where 'x = unit and models = example_library
      and f = 512 and k = "''bn1''" and c = GAP and l = GAP and ms = "[]"
      and ?l0.0 = GAP and ls = "[]" and avgpool = "(''a'', GAP)" and classifier = "(''c'', GAP)"] n(3) example_in_features(1) [of False, where 'x = unit]
  have "(get_backbone example_library example_exp :: unit error + network)
       = Inr (ResNet (AList.update ''fc'' (Linear 512 10) (resnet18 example_library False)))"
    by (simp add: v)
  ultimately show ?thesis by simp
qed

text \<open>
  The claim's last case as stated: with three channels the factory still replaces a layer
  of \<open>resnet18\<close>, the last one; and with one channel it replaces two layers, not only the
  first convolution.
\<close>

theorem first_convolution_by_channels_counterexample:
  "(get_backbone example_library example_exp :: unit error + network)
       = Inr (ResNet (AList.update ''fc'' (Linear 512 10) (resnet18 example_library False)))
   \<and> map_of (AList.update ''fc'' (Linear 512 10) (resnet18 example_library False)) ''fc''
       \<noteq> map_of (resnet18 example_library False) ''fc''
   \<and> (get_backbone example_library (example_exp\<lparr>dataset_channels := 1\<rparr>)
      :: unit error + network)
       = Inr (ResNet (AList.update ''conv1'' (Conv2d 1 64 (7, 7) (2, 2) (3, 3) False)
                (AList.update ''fc'' (Linear 512 10) (resnet18 example_library False))))
   \<and> map_of (AList.update ''conv1'' (Conv2d 1 64 (7, 7) (2, 2) (3, 3) False)
                (AList.update ''fc'' (Linear 512 10) (resnet18 example_library False))) ''fc''
       \<noteq> map_of (resnet18 example_library False) ''fc''"
proof -
  have a: "(get_backbone example_library example_exp :: unit error + network)
       = Inr (ResNet (AList.update ''fc'' (Linear 512 10) (resnet18 example_library False)))"
    by (simp add: get_backbone_def example_exp_def example_in_features)
  have b: "(get_backbone example_library (example_exp\<lparr>dataset_channels := 1\<rparr>)
      :: unit error + network)
       = Inr (ResNet (AList.update ''conv1'' (Conv2d 1 64 (7, 7) (2, 2) (3, 3) False)
                (AList.update ''fc'' (Linear 512 10) (resnet18 example_library False))))"
    by (simp add: get_backbone_def example_exp_def example_in_features)
  have c: "map_of (resnet18 example_library False) ''fc''
             = Some (Torchvision False (Linear 512 1000))"
    by (simp add: example_library_def resnet_outline_def)
  show ?thesis
    by (simp add: a b c update_conv')
qed

section \<open>The run: resuming and saving\<close>

lemma epoch_pass_Inr:
  assumes "epoch_pass M e (m, sl) = Inr (m', sl', saves)"
  shows "saves = [Torch_save (get_state_dict M m'), Save_pkl sl']"
    and "\<exists>d. sl' = sl @ [d] \<and> epoch_of d = Some (PyInt e)"
  using assms
  by (auto simp: epoch_pass_def Let_def bind_err_eq_Inr epoch_of_def update_conv'
        split: prod.splits)


subsection \<open>What the files can look like\<close>

lemma complete_saves:
  "foldl write_file fs [Torch_save sd, Save_pkl sl'] = fs\<lparr>model_pth := Some sd, score_list_pkl := Some sl'\<rparr>"
  by (simp add: write_file_def file_steps_def do_step_def)

lemma interrupted_steps:
  assumes "epoch_pass M e (m, sl) = Inr (m', sl', saves)"
  shows "interrupted M e (m, sl) fs 0 = fs"
    and "interrupted M e (m, sl) fs (Suc 0) = fs\<lparr>model_pth := None\<rparr>"
    and "interrupted M e (m, sl) fs (Suc (Suc 0)) = fs\<lparr>model_pth := Some (get_state_dict M m')\<rparr>"
    and "interrupted M e (m, sl) fs (Suc (Suc (Suc 0)))
           = fs\<lparr>model_pth := Some (get_state_dict M m'), score_list_pkl := None\<rparr>"
    and "interrupted M e (m, sl) fs (Suc (Suc (Suc (Suc k))))
           = fs\<lparr>model_pth := Some (get_state_dict M m'), score_list_pkl := Some sl'\<rparr>"
  using assms epoch_pass_Inr(1) [OF assms]
  by (simp_all add: interrupted_def file_steps_def do_step_def)

text \<open>The new score list is on disk only when the new model is.\<close>

lemma interrupted_score_list:
  assumes r: "epoch_pass M e (m, sl) = Inr (m', sl', saves)"
    and new: "score_list_pkl (interrupted M e (m, sl) fs k) = Some sl'"
    and old: "score_list_pkl fs \<noteq> Some sl'"
  shows "model_pth (interrupted M e (m, sl) fs k) = Some (get_state_dict M m')"
proof -
  consider "k = 0" | "k = Suc 0" | "k = Suc (Suc 0)" | "k = Suc (Suc (Suc 0))"
    | j where "k = Suc (Suc (Suc (Suc j)))"
    by (metis not0_implies_Suc)
  then show ?thesis
  proof cases
    case 1
    with new old interrupted_steps(1) [OF r, of fs] show ?thesis by simp
  next
    case 2
    with new old interrupted_steps(2) [OF r, of fs] show ?thesis by simp
  next
    case 3
    with interrupted_steps(3) [OF r, of fs] show ?thesis by simp
  next
    case 4
    with interrupted_steps(4) [OF r, of fs] show ?thesis by simp
  next
    case 5
    with interrupted_steps(5) [OF r, of fs] show ?thesis by simp
  qed
qed

lemma files_ok_epochs:
  assumes "files_ok fs"
  shows "files_ok (snd (epochs M es (m, sl) fs))"
  using assms
proof (induction es arbitrary: m sl fs)
  case Nil
  then show ?case by simp
next
  case (Cons e es)
  show ?case
  proof (cases "epoch_pass M e (m, sl)")
    case (Inl err)
    with Cons.prems show ?thesis by simp
  next
    case (Inr r)
    obtain m' sl' saves where r: "epoch_pass M e (m, sl) = Inr (m', sl', saves)"
      using Inr by (cases r) simp
    from epoch_pass_Inr(2) [OF r] obtain d where
      d: "sl' = sl @ [d]" "epoch_of d = Some (PyInt e)" by blast
    have "foldl write_file fs saves
            = fs\<lparr>model_pth := Some (get_state_dict M m'), score_list_pkl := Some sl'\<rparr>"
      unfolding epoch_pass_Inr(1) [OF r] by (rule complete_saves)
    with d have "files_ok (foldl write_file fs saves)"
      by (simp add: files_ok_def)
    from Cons.IH [OF this] r show ?thesis by simp
  qed
qed

lemma resume_files_ok:
  assumes "files_ok fs"
  shows "\<exists>r. resume M fs m = Inr r"
  using assms
  by (auto simp: files_ok_def resume_def Let_def epoch_of_def split: option.splits list.splits)

subsection \<open>The example run, evaluated\<close>

lemma counting_epoch_pass:
  "epoch_pass counting_model e (m, sl) =
     Inr (Suc m, sl @ [example_scores e], [Torch_save (Suc m), Save_pkl (sl @ [example_scores e])])"
  by (simp add: epoch_pass_def counting_model_def dict_update_def example_scores_def Let_def)

lemma counting_epochs_one:
  "epochs counting_model [e] (m, sl) fs =
     (Inr (Suc m, sl @ [example_scores e]),
      fs\<lparr>model_pth := Some (Suc m), score_list_pkl := Some (sl @ [example_scores e])\<rparr>)"
  by (simp add: counting_epoch_pass write_file_def file_steps_def do_step_def)



text \<open>
  C3, as the code has it. Saving one epoch's state is not atomic: the model is saved
  first and the score list second. Interrupted between the two saves, the files hold the
  model weights of epoch \<open>e\<close> beside the score history of epoch \<open>e - 1\<close>. The opposite never
  happens: whenever the score list of epoch \<open>e\<close> is on disk, so is the model of epoch \<open>e\<close>.
  The files are touched only after the epoch's training and validation have returned and
  both payloads are built: an exception in training or validation leaves the files of the
  previous epoch as they are, and so does an interruption before the first step. Inside
  a save the file being replaced is absent for one step.
\<close>

theorem epoch_is_saved_in_two_steps:
  "(epoch_pass M e (m, sl) = Inr (m', sl', saves) \<longrightarrow>
      saves = [Torch_save (get_state_dict M m'), Save_pkl sl']
      \<and> interrupted M e (m, sl) fs 0 = fs
      \<and> interrupted M e (m, sl) fs (Suc 0) = fs\<lparr>model_pth := None\<rparr>
      \<and> interrupted M e (m, sl) fs (Suc (Suc 0)) = fs\<lparr>model_pth := Some (get_state_dict M m')\<rparr>
      \<and> interrupted M e (m, sl) fs (Suc (Suc (Suc 0)))
          = fs\<lparr>model_pth := Some (get_state_dict M m'), score_list_pkl := None\<rparr>
      \<and> interrupted M e (m, sl) fs (Suc (Suc (Suc (Suc k))))
          = fs\<lparr>model_pth := Some (get_state_dict M m'), score_list_pkl := Some sl'\<rparr>
      \<and> snd (epochs M [e] (m, sl) fs)
          = fs\<lparr>model_pth := Some (get_state_dict M m'), score_list_pkl := Some sl'\<rparr>
      \<and> (score_list_pkl (interrupted M e (m, sl) fs k) = Some sl' \<longrightarrow>
           score_list_pkl fs \<noteq> Some sl' \<longrightarrow>
             model_pth (interrupted M e (m, sl) fs k) = Some (get_state_dict M m')))
   \<and> (epoch_pass M e (m, sl) = Inl err \<longrightarrow>
        epochs M (e # es) (m, sl) fs = (Inl err, fs) \<and> interrupted M e (m, sl) fs k = fs)"
proof -
  have ok: "saves = [Torch_save (get_state_dict M m'), Save_pkl sl']
      \<and> interrupted M e (m, sl) fs 0 = fs
      \<and> interrupted M e (m, sl) fs (Suc 0) = fs\<lparr>model_pth := None\<rparr>
      \<and> interrupted M e (m, sl) fs (Suc (Suc 0)) = fs\<lparr>model_pth := Some (get_state_dict M m')\<rparr>
      \<and> interrupted M e (m, sl) fs (Suc (Suc (Suc 0)))
          = fs\<lparr>model_pth := Some (get_state_dict M m'), score_list_pkl := None\<rparr>
      \<and> interrupted M e (m, sl) fs (Suc (Suc (Suc (Suc k))))
          = fs\<lparr>model_pth := Some (get_state_dict M m'), score_list_pkl := Some sl'\<rparr>
      \<and> snd (epochs M [e] (m, sl) fs)
          = fs\<lparr>model_pth := Some (get_state_dict M m'), score_list_pkl := Some sl'\<rparr>"
    if r: "epoch_pass M e (m, sl) = Inr (m', sl', saves)"
  proof -
    have s: "saves = [Torch_save (get_state_dict M m'), Save_pkl sl']"
      by (rule epoch_pass_Inr(1) [OF r])
    have "snd (epochs M [e] (m, sl) fs) = foldl write_file fs saves"
      by (simp add: r)
    also have "\<dots> = fs\<lparr>model_pth := Some (get_state_dict M m'), score_list_pkl := Some sl'\<rparr>"
      unfolding s by (rule complete_saves)
    finally show ?thesis
      using s interrupted_steps [OF r, of fs] by simp
  qed
  have order: "model_pth (interrupted M e (m, sl) fs k) = Some (get_state_dict M m')"
    if "epoch_pass M e (m, sl) = Inr (m', sl', saves)"
      and "score_list_pkl (interrupted M e (m, sl) fs k) = Some sl'"
      and "score_list_pkl fs \<noteq> Some sl'"
    using interrupted_score_list [OF that] .
  have bad: "epochs M (e # es) (m, sl) fs = (Inl err, fs) \<and> interrupted M e (m, sl) fs k = fs"
    if "epoch_pass M e (m, sl) = Inl err"
    using that by (simp add: interrupted_def)
  from ok order bad show ?thesis by blast
qed

theorem epoch_is_saved_in_two_steps_witness:
  "epoch_pass counting_model 1 (1, [example_scores 0])
     = Inr (2, [example_scores 0, example_scores 1],
            [Torch_save 2, Save_pkl [example_scores 0, example_scores 1]])
   \<and> interrupted counting_model 1 (1, [example_scores 0]) example_files 0 = example_files
   \<and> interrupted counting_model 1 (1, [example_scores 0]) example_files (Suc 0)
       = \<lparr>model_pth = None, score_list_pkl = Some [example_scores 0]\<rparr>
   \<and> interrupted counting_model 1 (1, [example_scores 0]) example_files (Suc (Suc 0))
       = \<lparr>model_pth = Some 2, score_list_pkl = Some [example_scores 0]\<rparr>
   \<and> interrupted counting_model 1 (1, [example_scores 0]) example_files (Suc (Suc (Suc 0)))
       = \<lparr>model_pth = Some 2, score_list_pkl = None\<rparr>
   \<and> interrupted counting_model 1 (1, [example_scores 0]) example_files
         (Suc (Suc (Suc (Suc 0))))
       = \<lparr>model_pth = Some 2, score_list_pkl = Some [example_scores 0, example_scores 1]\<rparr>
   \<and> resume counting_model \<lparr>model_pth = None, score_list_pkl = Some [example_scores 0]\<rparr> 0
       = Inl FileNotFoundError
   \<and> resume counting_model \<lparr>model_pth = Some 2, score_list_pkl = None\<rparr> 0
       = Inr (0, [], PyInt 0)"
proof -
  have p: "epoch_pass counting_model 1 (1, [example_scores 0])
     = Inr (2, [example_scores 0, example_scores 1],
            [Torch_save 2, Save_pkl [example_scores 0, example_scores 1]])"
    using counting_epoch_pass [of 1 1 "[example_scores 0]"] by (simp add: numeral_2_eq_2)
  have g: "get_state_dict counting_model 2 = 2"
    by (simp add: counting_model_def)
  have r1: "resume counting_model \<lparr>model_pth = None, score_list_pkl = Some [example_scores 0]\<rparr> 0
       = Inl FileNotFoundError"
    by (simp add: resume_def)
  have r3: "resume counting_model \<lparr>model_pth = Some 2, score_list_pkl = None\<rparr> 0
       = Inr (0, [], PyInt 0)"
    by (simp add: resume_def)
  from epoch_is_saved_in_two_steps [where M = counting_model and e = 1 and m = 1
      and sl = "[example_scores 0]" and m' = 2 and sl' = "[example_scores 0, example_scores 1]"
      and saves = "[Torch_save 2, Save_pkl [example_scores 0, example_scores 1]]"
      and fs = example_files and k = 0 and err = "Raised ()" and es = "[]"] p
  show ?thesis by (simp add: g r1 r3 example_files_def)
qed

text \<open>
  The claim as stated fails between the two saves. The counting model's state is the
  number of training epochs behind its weights. A run of one epoch from nothing commits
  \<open>example_files\<close>: weights after one training epoch, history ending at epoch 0. A second
  epoch interrupted after its first save leaves the weights of epoch 1 (two training
  epochs) beside the history of epoch 0, and the resumed run reads exactly this pair and
  goes on to run epoch 1 again.
\<close>

theorem epoch_is_saved_in_two_steps_counterexample:
  "trainval counting_model \<lparr>model_pth = None, score_list_pkl = None\<rparr> 0 False 1
     = (Inr (1, [example_scores 0]), example_files)
   \<and> interrupted counting_model 1 (1, [example_scores 0]) example_files (Suc (Suc 0))
       = \<lparr>model_pth = Some 2, score_list_pkl = Some [example_scores 0]\<rparr>
   \<and> resume counting_model \<lparr>model_pth = Some 2, score_list_pkl = Some [example_scores 0]\<rparr> 0
       = Inr (2, [example_scores 0], PyInt 1)
   \<and> epoch_of (last [example_scores 0]) = Some (PyInt 0)"
proof -
  have u: "[(0::int)..1 - 1] = [0]"
    by (simp add: upto_rec1)
  have "trainval counting_model \<lparr>model_pth = None, score_list_pkl = None\<rparr> 0 False 1
     = epochs counting_model [0..1 - 1] (0, []) \<lparr>model_pth = None, score_list_pkl = None\<rparr>"
    by (simp add: trainval_def resume_def py_range_def del: epochs.simps)
  then have a: "trainval counting_model \<lparr>model_pth = None, score_list_pkl = None\<rparr> 0 False 1
     = (Inr (1, [example_scores 0]), example_files)"
    unfolding u counting_epochs_one by (simp add: example_files_def)
  have b: "interrupted counting_model 1 (1, [example_scores 0]) example_files (Suc (Suc 0))
       = \<lparr>model_pth = Some 2, score_list_pkl = Some [example_scores 0]\<rparr>"
    by (simp add: interrupted_def counting_epoch_pass file_steps_def do_step_def
          example_files_def)
  have c: "resume counting_model \<lparr>model_pth = Some 2, score_list_pkl = Some [example_scores 0]\<rparr> 0
       = Inr (2, [example_scores 0], PyInt 1)"
    by (simp add: resume_def Let_def counting_model_def example_scores_def add_one_def)
  have d: "epoch_of (last [example_scores 0]) = Some (PyInt 0)"
    by (simp add: epoch_of_def example_scores_def)
  from a b c d show ?thesis by simp
qed


end
